theory Spec2Isabelle
  imports Main "HOL-Library.Word" "HOL-Library.List_Lexorder"
begin

unbundle bit_operations_syntax

section \<open>The virtual file system of llvfs.cpp\<close>

text \<open>
  A shallow embedding of \<^verbatim>\<open>llvfs.cpp\<close> (the file \<^verbatim>\<open>src/unnamed/part_002\<close>).
  Conventions of the embedding:
  \<^item> \<^verbatim>\<open>U32\<close>, \<^verbatim>\<open>S32\<close>, \<^verbatim>\<open>S16\<close> and \<^verbatim>\<open>U8\<close> are machine words; arithmetic wraps,
    a comparison of a signed operand is written with \<open><s\<close> and \<open>\<le>s\<close>, one of
    an unsigned operand with \<open><\<close> and \<open>\<le>\<close>.
  \<^item> The clock \<^verbatim>\<open>time(NULL)\<close> is the parameter \<open>now\<close> of every operation that reads it.
  \<^item> \<^verbatim>\<open>llerrs\<close> ends the process: the operation returns \<open>Inl\<close> of the error site.
    \<^verbatim>\<open>llwarns\<close> and \<^verbatim>\<open>llinfos\<close> only log and are left out.
  \<^item> \<^verbatim>\<open>llassert\<close>, \<^verbatim>\<open>llverify\<close> and \<^verbatim>\<open>#if LL_DEBUG\<close> are checked in a debug
    build only: the parameter \<open>dbg\<close> says whether the build checks them.
  \<^item> The data mutex is left out: the embedding is of one thread.
\<close>

subsection \<open>Machine types\<close>

type_synonym U8 = "8 word"
type_synonym U16 = "16 word"
type_synonym S16 = "16 word"
type_synonym U32 = "32 word"
type_synonym S32 = "32 word"

text \<open>\<^verbatim>\<open>FILE_BLOCK_MASK\<close>, \<^verbatim>\<open>VFS_CLEANUP_SIZE\<close> and \<^verbatim>\<open>BLOCK_LENGTH_INVALID\<close>.\<close>

definition FILE_BLOCK_MASK :: S32 where
  "FILE_BLOCK_MASK = 0x000003FF"

definition VFS_CLEANUP_SIZE :: S32 where
  "VFS_CLEANUP_SIZE = 5242880"

definition BLOCK_LENGTH_INVALID :: S32 where
  "BLOCK_LENGTH_INVALID = - 1"

definition SERIAL_SIZE :: nat where
  "SERIAL_SIZE = 34"

subsection \<open>Blocks\<close>

datatype EVFSLock = VFSLOCK_OPEN | VFSLOCK_READ | VFSLOCK_APPEND

datatype EVFSValid =
  VFSVALID_OK | VFSVALID_BAD_CORRUPT | VFSVALID_BAD_CANNOT_OPEN_READONLY | VFSVALID_BAD_CANNOT_CREATE

record LLVFSBlock =
  mLocation :: U32
  mLength :: S32

text \<open>
  \<^verbatim>\<open>LLVFSFileBlock\<close> inherits the two fields of \<^verbatim>\<open>LLVFSBlock\<close> and the two of
  \<^verbatim>\<open>LLVFSFileSpecifier\<close> (the UUID's 16 raw bytes \<^verbatim>\<open>mFileID.mData\<close> and the asset type,
  an enumeration held in an \<^verbatim>\<open>int\<close>).
\<close>

record LLVFSFileBlock = LLVFSBlock +
  mFileID :: "U8 list"
  mFileType :: S32
  mSize :: S32
  mIndexLocation :: S32
  mAccessTime :: U32
  mLocks :: "EVFSLock \<Rightarrow> S32"

type_synonym LLVFSFileSpecifier = "U8 list \<times> S32"

text \<open>
  \<^verbatim>\<open>LLVFSFileSpecifier::operator<\<close>. Modelled from the spec: \<^verbatim>\<open>LLUUID::operator<\<close> is
  declared outside the sources at hand; the spec has keys "compared lexicographically
  (UUID first, then type)", which on the 16 bytes is the lexicographic order of byte lists.
\<close>

definition spec_less :: "LLVFSFileSpecifier \<Rightarrow> LLVFSFileSpecifier \<Rightarrow> bool" where
  "spec_less a b = (if fst a = fst b then snd a <s snd b else fst a < fst b)"

definition spec_of :: "LLVFSFileBlock \<Rightarrow> LLVFSFileSpecifier" where
  "spec_of b = (mFileID b, mFileType b)"

text \<open>The constructor \<^verbatim>\<open>LLVFSFileBlock(file_id, file_type, loc, size)\<close> with \<^verbatim>\<open>init()\<close>.\<close>

definition new_LLVFSFileBlock :: "U32 \<Rightarrow> U8 list \<Rightarrow> S32 \<Rightarrow> U32 \<Rightarrow> S32 \<Rightarrow> LLVFSFileBlock" where
  "new_LLVFSFileBlock now file_id file_type loc len =
     \<lparr>mLocation = loc, mLength = len, mFileID = file_id, mFileType = file_type,
      mSize = 0, mIndexLocation = - 1, mAccessTime = now, mLocks = (\<lambda>_. 0)\<rparr>"

subsection \<open>The 34-byte index record\<close>

text \<open>
  The bytes of a value in the memory of the host are little-endian on a host with
  \<^verbatim>\<open>LL_LITTLE_ENDIAN\<close> (the parameter \<open>le\<close>) and big-endian on any other.
\<close>

definition le32 :: "U32 \<Rightarrow> U8 list" where
  "le32 x = [ucast x, ucast (drop_bit 8 x), ucast (drop_bit 16 x), ucast (drop_bit 24 x)]"

definition le16 :: "U16 \<Rightarrow> U8 list" where
  "le16 x = [ucast x, ucast (drop_bit 8 x)]"

fun from_le32 :: "U8 list \<Rightarrow> U32" where
  "from_le32 (b0 # b1 # b2 # b3 # _) =
     (ucast b0 OR push_bit 8 (ucast b1) OR push_bit 16 (ucast b2) OR push_bit 24 (ucast b3))"
| "from_le32 _ = 0"

fun from_le16 :: "U8 list \<Rightarrow> U16" where
  "from_le16 (b0 # b1 # _) = (ucast b0 OR push_bit 8 (ucast b1))"
| "from_le16 _ = 0"

definition host_bytes32 :: "bool \<Rightarrow> U32 \<Rightarrow> U8 list" where
  "host_bytes32 le x = (if le then le32 x else rev (le32 x))"

definition host_bytes16 :: "bool \<Rightarrow> U16 \<Rightarrow> U8 list" where
  "host_bytes16 le x = (if le then le16 x else rev (le16 x))"

definition host_word32 :: "bool \<Rightarrow> U8 list \<Rightarrow> U32" where
  "host_word32 le bs = (if le then from_le32 bs else from_le32 (rev (take 4 bs)))"

definition host_word16 :: "bool \<Rightarrow> U8 list \<Rightarrow> U16" where
  "host_word16 le bs = (if le then from_le16 bs else from_le16 (rev (take 2 bs)))"

definition swizzle32 :: "U32 \<Rightarrow> U32" where
  "swizzle32 x =
     ((drop_bit 24 x AND 0x000000FF) OR (drop_bit 8 x AND 0x0000FF00) OR
      (push_bit 8 x AND 0x00FF0000) OR (push_bit 24 x AND 0xFF000000))"

definition swizzle16 :: "U16 \<Rightarrow> U16" where
  "swizzle16 x = ((drop_bit 8 x AND 0x00FF) OR (push_bit 8 x AND 0xFF00))"

text \<open>
  \<^verbatim>\<open>swizzleCopy(dst, src, size)\<close>: the bytes stored at \<^verbatim>\<open>dst\<close>, from the bytes at
  \<^verbatim>\<open>src\<close>. A \<^verbatim>\<open>memcpy\<close> on a little-endian host; on any other the value at \<^verbatim>\<open>src\<close>
  is read, swapped and stored.
\<close>

definition swizzleCopy :: "bool \<Rightarrow> nat \<Rightarrow> U8 list \<Rightarrow> U8 list" where
  "swizzleCopy le n src =
     (if le then take n src
      else if n = 4 then host_bytes32 False (swizzle32 (host_word32 False src))
      else if n = 2 then host_bytes16 False (swizzle16 (host_word16 False src))
      else take n src)"

definition serialize :: "bool \<Rightarrow> LLVFSFileBlock \<Rightarrow> U8 list" where
  "serialize le b =
     swizzleCopy le 4 (host_bytes32 le (mLocation b)) @
     swizzleCopy le 4 (host_bytes32 le (mLength b)) @
     swizzleCopy le 4 (host_bytes32 le (mAccessTime b)) @
     take 16 (mFileID b) @
     (let temp_type = (ucast (mFileType b) :: S16)
      in swizzleCopy le 2 (host_bytes16 le temp_type)) @
     swizzleCopy le 4 (host_bytes32 le (mSize b))"

definition deserialize :: "bool \<Rightarrow> U8 list \<Rightarrow> S32 \<Rightarrow> LLVFSFileBlock \<Rightarrow> LLVFSFileBlock" where
  "deserialize le buffer index_loc b =
     (let temp_type = (host_word16 le (swizzleCopy le 2 (drop 28 buffer)) :: S16)
      in b\<lparr>mIndexLocation := index_loc,
            mLocation := host_word32 le (swizzleCopy le 4 buffer),
            mLength := host_word32 le (swizzleCopy le 4 (drop 4 buffer)),
            mAccessTime := host_word32 le (swizzleCopy le 4 (drop 8 buffer)),
            mFileID := take 16 (drop 12 buffer),
            mFileType := scast temp_type,
            mSize := host_word32 le (swizzleCopy le 4 (drop 30 buffer))\<rparr>)"

subsection \<open>Fatal errors\<close>

text \<open>
  Modelled from the spec: the macro \<^verbatim>\<open>llerrs\<close> is defined outside the sources at hand. The
  spec has an \<^verbatim>\<open>llerrs\<close> as "a fatal error" (the destructor with the mutex held) and "a
  hard error" (a rename onto a locked target), and the source never returns after one
  where going on would be wrong (\<^verbatim>\<open>setMaxSize\<close> on a read-only VFS). An operation that
  reaches one returns \<open>Inl\<close> of its site and has no state after it. \<open>ReadPastBuffer\<close> is no
  \<^verbatim>\<open>llerrs\<close>: it is the read of an index record beyond the end of the buffer that holds the
  index file, which C++ leaves undefined; the model has no state after it either.
\<close>

datatype fatal =
    InvalidVFS            \<comment> \<open>"Attempting to use invalid VFS!"\<close>
  | ReadOnlyVFS           \<comment> \<open>"Attempt to write to read-only VFS"\<close>
  | TruncatingVirtualFile \<comment> \<open>"Truncating virtual file ... to ... bytes"\<close>
  | EraseBlockNotFound    \<comment> \<open>"eraseBlock could not find block"\<close>
  | SyncZeroLength        \<comment> \<open>"VFS syncing zero-length block"\<close>
  | BlockAlreadyInList    \<comment> \<open>"addFreeBlock called with block already in list"\<close>
  | AssertFailed          \<comment> \<open>a failed \<^verbatim>\<open>llassert\<close> or \<^verbatim>\<open>llverify\<close> of a debug build\<close>
  | ReadPastBuffer        \<comment> \<open>\<^verbatim>\<open>deserialize\<close> on fewer than 34 bytes of the index buffer\<close>

definition then_do :: "fatal + 'a \<Rightarrow> ('a \<Rightarrow> fatal + 'b) \<Rightarrow> fatal + 'b" where
  "then_do m f = (case m of Inl e \<Rightarrow> Inl e | Inr x \<Rightarrow> f x)"

text \<open>The build: the byte order of the host and whether debug checks are compiled in.\<close>

record build =
  LL_LITTLE_ENDIAN :: bool
  LL_DEBUG :: bool

subsection \<open>Host files\<close>

text \<open>
  A \<^verbatim>\<open>FILE*\<close> open for update: the bytes of the file and the position of the stream.
  The host is taken to be reliable (every \<^verbatim>\<open>fwrite\<close> writes all of its bytes). A write
  of at least one byte past the end of the file fills the gap with zero bytes; a write of no
  byte leaves the file and the position as they are; \<^verbatim>\<open>fseek\<close> to a negative offset fails
  and leaves the position where it was.
\<close>

record FILE =
  fbytes :: "U8 list"
  fpos :: nat

definition fseek_SET :: "int \<Rightarrow> FILE \<Rightarrow> FILE" where
  "fseek_SET off f = (if off < 0 then f else f\<lparr>fpos := nat off\<rparr>)"

definition fseek_END :: "FILE \<Rightarrow> FILE" where
  "fseek_END f = f\<lparr>fpos := length (fbytes f)\<rparr>"

definition ftell :: "FILE \<Rightarrow> nat" where
  "ftell f = fpos f"

definition fwrite :: "U8 list \<Rightarrow> FILE \<Rightarrow> FILE" where
  "fwrite bs f =
     (if bs = [] then f
      else
        let c = fbytes f; p = fpos f
        in f\<lparr>fbytes := take p c @ replicate (p - length c) 0 @ bs @ drop (p + length bs) c,
              fpos := p + length bs\<rparr>)"

text \<open>
  \<^verbatim>\<open>fread\<close> into a fresh buffer of \<open>n\<close> bytes: the bytes read, then zero bytes where the file
  ended early (the source leaves that part of its buffer as it was allocated).
\<close>

definition fread :: "nat \<Rightarrow> FILE \<Rightarrow> U8 list \<times> FILE" where
  "fread n f =
     (let got = take n (drop (fpos f) (fbytes f))
      in (got @ replicate (n - length got) 0, f\<lparr>fpos := fpos f + length got\<rparr>))"

subsection \<open>The state of an LLVFS\<close>

text \<open>
  The maps of the source hold pointers. An \<^verbatim>\<open>LLVFSBlock*\<close> and an \<^verbatim>\<open>LLVFSFileBlock*\<close>
  are addresses (\<open>nat\<close>); \<open>free_heap\<close> and \<open>file_heap\<close> hold the objects at the
  addresses, so that a write through one pointer is seen through every other pointer to
  the object. \<^verbatim>\<open>new\<close> takes the address \<open>next_addr\<close>; \<^verbatim>\<open>delete\<close> is left out (an
  address is never reused).

  Modelled from the spec: the header \<^verbatim>\<open>llvfs.h\<close> with the types of the members is outside
  the sources at hand. \<open>mFileBlocks\<close> is the \<^verbatim>\<open>std::map\<close> of the directory, in key order;
  \<open>mFreeBlocksByLocation\<close> and \<open>mFreeBlocksByLength\<close> are the two sorted indexes of the
  free blocks, multimaps as the source's comments at every insertion say (entries in
  key order, a new entry after the entries of an equal key); \<open>mIndexHoles\<close> is the
  \<^verbatim>\<open>std::deque\<close> of reusable index slots.
\<close>

record LLVFS =
  mValid :: EVFSValid
  mReadOnly :: bool
  mLockCounts :: "EVFSLock \<Rightarrow> S32"
  mFileBlocks :: "(LLVFSFileSpecifier \<times> nat) list"
  mFreeBlocksByLocation :: "(U32 \<times> nat) list"
  mFreeBlocksByLength :: "(S32 \<times> nat) list"
  mIndexHoles :: "S32 list"
  mIndexFP :: FILE
  mDataFP :: FILE
  file_heap :: "nat \<Rightarrow> LLVFSFileBlock"
  free_heap :: "nat \<Rightarrow> LLVFSBlock"
  next_addr :: nat

definition isValid :: "LLVFS \<Rightarrow> bool" where
  "isValid st = (mValid st = VFSVALID_OK)"

text \<open>A write through a pointer: \<^verbatim>\<open>p->field = v\<close>.\<close>

definition upd_file :: "nat \<Rightarrow> (LLVFSFileBlock \<Rightarrow> LLVFSFileBlock) \<Rightarrow> LLVFS \<Rightarrow> LLVFS" where
  "upd_file p f st = st\<lparr>file_heap := (file_heap st)(p := f (file_heap st p))\<rparr>"

definition upd_free :: "nat \<Rightarrow> (LLVFSBlock \<Rightarrow> LLVFSBlock) \<Rightarrow> LLVFS \<Rightarrow> LLVFS" where
  "upd_free p f st = st\<lparr>free_heap := (free_heap st)(p := f (free_heap st p))\<rparr>"

text \<open>\<^verbatim>\<open>new LLVFSBlock(loc, size)\<close> and \<^verbatim>\<open>new LLVFSFileBlock(...)\<close>.\<close>

definition new_LLVFSBlock :: "U32 \<Rightarrow> S32 \<Rightarrow> LLVFS \<Rightarrow> nat \<times> LLVFS" where
  "new_LLVFSBlock loc len st =
     (next_addr st,
      st\<lparr>free_heap := (free_heap st)(next_addr st := \<lparr>mLocation = loc, mLength = len\<rparr>),
         next_addr := Suc (next_addr st)\<rparr>)"

definition new_file_block :: "LLVFSFileBlock \<Rightarrow> LLVFS \<Rightarrow> nat \<times> LLVFS" where
  "new_file_block b st =
     (next_addr st,
      st\<lparr>file_heap := (file_heap st)(next_addr st := b), next_addr := Suc (next_addr st)\<rparr>)"

subsection \<open>Sorted containers\<close>

text \<open>
  An iterator is an index into the list of entries; \<^verbatim>\<open>begin()\<close> is 0 and \<^verbatim>\<open>end()\<close> the
  length. \<open>lt\<close> is the order of the keys: \<open>(<)\<close> for a \<^verbatim>\<open>U32\<close>, \<open>(<s)\<close> for
  an \<^verbatim>\<open>S32\<close>.
\<close>

definition lower_bound :: "('k \<Rightarrow> 'k \<Rightarrow> bool) \<Rightarrow> 'k \<Rightarrow> ('k \<times> 'v) list \<Rightarrow> nat" where
  "lower_bound lt k m = length (takeWhile (\<lambda>e. lt (fst e) k) m)"

definition upper_bound :: "('k \<Rightarrow> 'k \<Rightarrow> bool) \<Rightarrow> 'k \<Rightarrow> ('k \<times> 'v) list \<Rightarrow> nat" where
  "upper_bound lt k m = length (takeWhile (\<lambda>e. \<not> lt k (fst e)) m)"

definition insert_at :: "nat \<Rightarrow> 'a \<Rightarrow> 'a list \<Rightarrow> 'a list" where
  "insert_at i x xs = take i xs @ x # drop i xs"

definition multimap_insert :: "('k \<Rightarrow> 'k \<Rightarrow> bool) \<Rightarrow> 'k \<Rightarrow> 'v \<Rightarrow> ('k \<times> 'v) list \<Rightarrow> ('k \<times> 'v) list" where
  "multimap_insert lt k v m = insert_at (upper_bound lt k m) (k, v) m"

text \<open>\<^verbatim>\<open>erase(key)\<close>: every entry of the key goes; the count of them is returned.\<close>

definition multimap_count :: "('k \<Rightarrow> 'k \<Rightarrow> bool) \<Rightarrow> 'k \<Rightarrow> ('k \<times> 'v) list \<Rightarrow> nat" where
  "multimap_count lt k m = length (filter (\<lambda>e. \<not> lt (fst e) k \<and> \<not> lt k (fst e)) m)"

definition multimap_erase :: "('k \<Rightarrow> 'k \<Rightarrow> bool) \<Rightarrow> 'k \<Rightarrow> ('k \<times> 'v) list \<Rightarrow> nat \<times> ('k \<times> 'v) list" where
  "multimap_erase lt k m =
     (multimap_count lt k m, filter (\<lambda>e. lt (fst e) k \<or> lt k (fst e)) m)"

text \<open>\<^verbatim>\<open>std::map::insert\<close> of the directory: a key that is present keeps its entry.\<close>

fun map_insert :: "LLVFSFileSpecifier \<Rightarrow> nat \<Rightarrow> (LLVFSFileSpecifier \<times> nat) list \<Rightarrow> (LLVFSFileSpecifier \<times> nat) list" where
  "map_insert k v [] = [(k, v)]"
| "map_insert k v (e # es) =
     (if spec_less k (fst e) then (k, v) # e # es
      else if spec_less (fst e) k then e # map_insert k v es
      else e # es)"

text \<open>\<^verbatim>\<open>mFileBlocks.find(spec)\<close>: the pointer of the entry, or \<open>None\<close> for \<^verbatim>\<open>end()\<close>.\<close>

definition find_block :: "LLVFSFileSpecifier \<Rightarrow> LLVFS \<Rightarrow> nat option" where
  "find_block spec st = map_of (mFileBlocks st) spec"

subsection \<open>The free lists\<close>

text \<open>
  \<^verbatim>\<open>eraseBlockLength\<close>: from \<^verbatim>\<open>lower_bound(length)\<close> on, the first entry that holds the
  pointer is erased; \<^verbatim>\<open>llerrs\<close> when the end is reached without it.
\<close>

fun eraseBlockLength_loop :: "bool \<Rightarrow> (nat \<Rightarrow> LLVFSBlock) \<Rightarrow> S32 \<Rightarrow> nat \<Rightarrow> (S32 \<times> nat) list \<Rightarrow> fatal + (S32 \<times> nat) list" where
  "eraseBlockLength_loop dbg h len block [] = Inl EraseBlockNotFound"
| "eraseBlockLength_loop dbg h len block (e # es) =
     (let tblock = snd e
      in if dbg \<and> mLength (h tblock) \<noteq> len then Inl AssertFailed
         else if tblock = block then Inr es
         else then_do (eraseBlockLength_loop dbg h len block es) (\<lambda>r. Inr (e # r)))"

definition eraseBlockLength :: "build \<Rightarrow> nat \<Rightarrow> LLVFS \<Rightarrow> fatal + LLVFS" where
  "eraseBlockLength cfg block st =
     (let len = mLength (free_heap st block);
          m = mFreeBlocksByLength st;
          iter = lower_bound (<s) len m
      in then_do (eraseBlockLength_loop (LL_DEBUG cfg) (free_heap st) len block (drop iter m))
           (\<lambda>r. Inr (st\<lparr>mFreeBlocksByLength := take iter m @ r\<rparr>)))"

text \<open>\<^verbatim>\<open>eraseBlock\<close>: out of both lists; \<^verbatim>\<open>llverify\<close> that one entry had the location.\<close>

definition eraseBlock :: "build \<Rightarrow> nat \<Rightarrow> LLVFS \<Rightarrow> fatal + LLVFS" where
  "eraseBlock cfg block st =
     then_do (eraseBlockLength cfg block st) (\<lambda>st1.
       let location = mLocation (free_heap st1 block);
           (count, m) = multimap_erase (<) location (mFreeBlocksByLocation st1)
       in if LL_DEBUG cfg \<and> count \<noteq> 1 then Inl AssertFailed
          else Inr (st1\<lparr>mFreeBlocksByLocation := m\<rparr>))"

text \<open>
  \<^verbatim>\<open>addFreeBlock(block)\<close>, with its four cases: merge with both neighbours, with the
  previous, with the next, or a plain insertion at the hint \<^verbatim>\<open>next_free_it\<close>.
\<close>

definition addFreeBlock :: "build \<Rightarrow> nat \<Rightarrow> LLVFS \<Rightarrow> fatal + LLVFS" where
  "addFreeBlock cfg block st =
     (let byloc = mFreeBlocksByLocation st;
          b = free_heap st block
      in if LL_DEBUG cfg \<and> multimap_count (<) (mLocation b) byloc > 0
         then Inl BlockAlreadyInList
         else
           let next_free_it = lower_bound (<) (mLocation b) byloc;
               prev_block = snd (byloc ! (next_free_it - 1));
               merge_prev = (next_free_it \<noteq> 0 \<and>
                 mLocation (free_heap st prev_block) + mLength (free_heap st prev_block) = mLocation b);
               next_block = snd (byloc ! next_free_it);
               merge_next = (next_free_it \<noteq> length byloc \<and>
                 mLocation b + mLength b = mLocation (free_heap st next_block))
           in if merge_prev \<and> merge_next then
                then_do (eraseBlockLength cfg prev_block st) (\<lambda>st1.
                then_do (eraseBlock cfg next_block st1) (\<lambda>st2.
                  let st3 = upd_free prev_block (\<lambda>p. p\<lparr>mLength :=
                              mLength p + (mLength (free_heap st2 block) + mLength (free_heap st2 next_block))\<rparr>) st2
                  in Inr (st3\<lparr>mFreeBlocksByLength :=
                       multimap_insert (<s) (mLength (free_heap st3 prev_block)) prev_block
                         (mFreeBlocksByLength st3)\<rparr>)))
              else if merge_prev then
                then_do (eraseBlockLength cfg prev_block st) (\<lambda>st1.
                  let st2 = upd_free prev_block (\<lambda>p. p\<lparr>mLength :=
                              mLength p + mLength (free_heap st1 block)\<rparr>) st1
                  in Inr (st2\<lparr>mFreeBlocksByLength :=
                       multimap_insert (<s) (mLength (free_heap st2 prev_block)) prev_block
                         (mFreeBlocksByLength st2)\<rparr>))
              else if merge_next then
                then_do (eraseBlock cfg next_block st) (\<lambda>st1.
                  let st2 = upd_free next_block (\<lambda>n. n\<lparr>mLocation := mLocation (free_heap st1 block)\<rparr>) st1;
                      st3 = upd_free next_block (\<lambda>n. n\<lparr>mLength :=
                              mLength n + mLength (free_heap st2 block)\<rparr>) st2
                  in Inr (st3\<lparr>mFreeBlocksByLocation :=
                       multimap_insert (<) (mLocation (free_heap st3 next_block)) next_block
                         (mFreeBlocksByLocation st3),
                     mFreeBlocksByLength :=
                       multimap_insert (<s) (mLength (free_heap st3 next_block)) next_block
                         (mFreeBlocksByLength st3)\<rparr>))
              else
                Inr (st\<lparr>mFreeBlocksByLocation := insert_at next_free_it (mLocation b, block) byloc,
                        mFreeBlocksByLength :=
                          multimap_insert (<s) (mLength b) block (mFreeBlocksByLength st)\<rparr>))"

text \<open>\<^verbatim>\<open>useFreeSpace(free_block, length)\<close>: the leading bytes of a free block are taken.\<close>

definition useFreeSpace :: "build \<Rightarrow> nat \<Rightarrow> S32 \<Rightarrow> LLVFS \<Rightarrow> fatal + LLVFS" where
  "useFreeSpace cfg free_block len st =
     (if mLength (free_heap st free_block) = len then eraseBlock cfg free_block st
      else
        then_do (eraseBlock cfg free_block st) (\<lambda>st1.
          let st2 = upd_free free_block (\<lambda>f. f\<lparr>mLocation := mLocation f + len\<rparr>) st1;
              st3 = upd_free free_block (\<lambda>f. f\<lparr>mLength := mLength f - len\<rparr>) st2
          in addFreeBlock cfg free_block st3))"

text \<open>\<^verbatim>\<open>checkAvailable(max_size)\<close>.\<close>

definition checkAvailable :: "S32 \<Rightarrow> LLVFS \<Rightarrow> bool" where
  "checkAvailable max_size st =
     (lower_bound (<s) max_size (mFreeBlocksByLength st) \<noteq> length (mFreeBlocksByLength st))"

subsection \<open>The index file\<close>

text \<open>
  \<^verbatim>\<open>sync(block, remove)\<close>: the slot of the record is its \<^verbatim>\<open>mIndexLocation\<close>, else the
  front of \<^verbatim>\<open>mIndexHoles\<close>, else the end of the index file.
\<close>

definition sync :: "build \<Rightarrow> nat \<Rightarrow> bool \<Rightarrow> LLVFS \<Rightarrow> fatal + LLVFS" where
  "sync cfg block remove st =
     (if \<not> isValid st then Inl InvalidVFS
      else if mReadOnly st then Inr st
      else if mLength (file_heap st block) = BLOCK_LENGTH_INVALID then Inr st
      else if mLength (file_heap st block) = 0 then Inl SyncZeroLength
      else
        let seek_pos0 = mIndexLocation (file_heap st block);
            holes = mIndexHoles st;
            set_index_to_end = (- 1 = seek_pos0 \<and> holes = []);
            seek_pos1 = (if - 1 = seek_pos0 \<and> holes \<noteq> [] then hd holes else seek_pos0);
            holes1 = (if - 1 = seek_pos0 \<and> holes \<noteq> [] then tl holes else holes);
            fp1 = (if set_index_to_end then fseek_END (mIndexFP st) else mIndexFP st);
            seek_pos = (if set_index_to_end then of_nat (ftell fp1) else seek_pos1);
            st1 = upd_file block (\<lambda>b. b\<lparr>mIndexLocation := seek_pos\<rparr>) st;
            holes2 = (if remove then holes1 @ [seek_pos] else holes1);
            buffer = (if remove then replicate SERIAL_SIZE 0
                      else serialize (LL_LITTLE_ENDIAN cfg) (file_heap st1 block));
            fp2 = (if \<not> set_index_to_end then fseek_SET (sint seek_pos) fp1 else fp1)
        in Inr (st1\<lparr>mIndexHoles := holes2, mIndexFP := fwrite buffer fp2\<rparr>))"

subsection \<open>Removing a file block\<close>

definition removeFileBlock :: "build \<Rightarrow> nat \<Rightarrow> LLVFS \<Rightarrow> fatal + LLVFS" where
  "removeFileBlock cfg fileblock st =
     then_do (sync cfg fileblock True st) (\<lambda>st1.
     then_do
       (if 0 <s mLength (file_heap st1 fileblock) then
          (let (free_block, st2) =
                 new_LLVFSBlock (mLocation (file_heap st1 fileblock)) (mLength (file_heap st1 fileblock)) st1
           in addFreeBlock cfg free_block st2)
        else Inr st1) (\<lambda>st3.
       Inr (upd_file fileblock
              (\<lambda>b. b\<lparr>mLocation := 0, mSize := 0, mLength := BLOCK_LENGTH_INVALID, mIndexLocation := - 1\<rparr>)
              st3)))"


subsection \<open>Finding a free block, with eviction\<close>

text \<open>\<^verbatim>\<open>LLVFSFileBlock::insertLRU\<close>, the order of the set \<^verbatim>\<open>lru_list\<close>.\<close>

definition insertLRU :: "LLVFSFileBlock \<Rightarrow> LLVFSFileBlock \<Rightarrow> bool" where
  "insertLRU first second =
     (if mAccessTime first = mAccessTime second then spec_less (spec_of first) (spec_of second)
      else mAccessTime first < mAccessTime second)"

text \<open>
  \<^verbatim>\<open>lru_list.insert(tmp)\<close> on the \<^verbatim>\<open>std::set\<close> of pointers ordered by \<^verbatim>\<open>insertLRU\<close> of the
  objects: an element that is neither before nor after one of the set is not inserted.
\<close>

fun lru_insert :: "(nat \<Rightarrow> LLVFSFileBlock) \<Rightarrow> nat \<Rightarrow> nat list \<Rightarrow> nat list" where
  "lru_insert h tmp [] = [tmp]"
| "lru_insert h tmp (q # qs) =
     (if insertLRU (h tmp) (h q) then tmp # q # qs
      else if insertLRU (h q) (h tmp) then q # lru_insert h tmp qs
      else q # qs)"

text \<open>The loop over \<^verbatim>\<open>mFileBlocks\<close> that fills \<^verbatim>\<open>lru_list\<close>.\<close>

fun build_lru_list :: "(nat \<Rightarrow> LLVFSFileBlock) \<Rightarrow> nat option \<Rightarrow> (LLVFSFileSpecifier \<times> nat) list \<Rightarrow> nat list \<Rightarrow> nat list" where
  "build_lru_list h immune [] lru_list = lru_list"
| "build_lru_list h immune (it # rest) lru_list =
     (let tmp = snd it
      in build_lru_list h immune rest
           (if Some tmp \<noteq> immune \<and> 0 <s mLength (h tmp) \<and>
               mLocks (h tmp) VFSLOCK_READ = 0 \<and>
               mLocks (h tmp) VFSLOCK_APPEND = 0 \<and>
               mLocks (h tmp) VFSLOCK_OPEN = 0
            then lru_insert h tmp lru_list else lru_list))"

text \<open>
  The aggressive sweep: heads of \<^verbatim>\<open>lru_list\<close> are removed while any is left and
  \<^verbatim>\<open>cleaned_up < cleanup_target\<close>. The list that is left and the state are returned.
\<close>

fun aggressive_cleanup :: "build \<Rightarrow> U32 \<Rightarrow> U32 \<Rightarrow> nat list \<Rightarrow> LLVFS \<Rightarrow> fatal + (nat list \<times> LLVFS)" where
  "aggressive_cleanup cfg cleanup_target cleaned_up [] st = Inr ([], st)"
| "aggressive_cleanup cfg cleanup_target cleaned_up (file_block # rest) st =
     (if cleaned_up < cleanup_target then
        then_do (removeFileBlock cfg file_block st)
          (aggressive_cleanup cfg cleanup_target (cleaned_up + mLength (file_heap st file_block)) rest)
      else Inr (file_block # rest, st))"

text \<open>
  The loop \<^verbatim>\<open>while (! block)\<close> of \<^verbatim>\<open>findFreeBlock\<close>. \<open>lru\<close> is \<open>None\<close> until
  \<^verbatim>\<open>have_lru_list\<close> is set. The result is the pointer to a free block, or \<open>None\<close> for
  \<^verbatim>\<open>NULL\<close>.
\<close>

function findFreeBlock_loop :: "build \<Rightarrow> S32 \<Rightarrow> nat option \<Rightarrow> nat list option \<Rightarrow> LLVFS \<Rightarrow> fatal + (nat option \<times> LLVFS)" where
  "findFreeBlock_loop cfg sz immune lru st =
     (let m = mFreeBlocksByLength st;
          iter = lower_bound (<s) sz m
      in if iter \<noteq> length m then Inr (Some (snd (m ! iter)), st)
         else
           let lru_list = (case lru of
                             None \<Rightarrow> build_lru_list (file_heap st) immune (mFileBlocks st) []
                           | Some l \<Rightarrow> l)
           in case lru_list of
                [] \<Rightarrow> Inr (None, st)
              | file_block # rest \<Rightarrow>
                  if sz \<le>s mLength (file_heap st file_block) \<and> Some file_block \<noteq> immune then
                    (case removeFileBlock cfg file_block st of
                       Inl e \<Rightarrow> Inl e
                     | Inr st1 \<Rightarrow> findFreeBlock_loop cfg sz immune (Some rest) st1)
                  else
                    let cleanup_target = (if VFS_CLEANUP_SIZE <s sz then sz else VFS_CLEANUP_SIZE)
                    in (case aggressive_cleanup cfg cleanup_target 0 (file_block # rest) st of
                          Inl e \<Rightarrow> Inl e
                        | Inr (left, st1) \<Rightarrow> findFreeBlock_loop cfg sz immune (Some left) st1))"
  by pat_completeness auto

termination findFreeBlock_loop
proof (relation "measure (\<lambda>(cfg, sz, immune, lru, st).
          case lru of
            None \<Rightarrow> Suc (length (build_lru_list (file_heap st) immune (mFileBlocks st) []))
          | Some l \<Rightarrow> length l)", goal_cases)
  case 1
  then show ?case by simp
next
  case (2 cfg sz immune lru st m iter lru_list file_block rest st1)
  then show ?case
    by (cases lru) (auto dest: arg_cong [where f = length])
next
  case (3 cfg sz immune lru st m iter lru_list file_block rest cleanup_target x2 left st1)
  have shorter: "length left' \<le> length l \<and> (c < t \<and> l \<noteq> [] \<longrightarrow> length left' < length l)"
    if "aggressive_cleanup cfg t c l st' = Inr (left', st1')" for t c l st' left' st1'
    using that
  proof (induction l arbitrary: c st')
    case Nil
    then show ?case by simp
  next
    case (Cons p l)
    show ?case
    proof (cases "c < t")
      case True
      with Cons.prems obtain st2 where
        "aggressive_cleanup cfg t (c + mLength (file_heap st' p)) l st2 = Inr (left', st1')"
        by (auto simp: then_do_def split: sum.splits)
      from Cons.IH [OF this] show ?thesis by simp
    next
      case False
      with Cons.prems show ?thesis by auto
    qed
  qed
  have target: "(0::U32) < (if VFS_CLEANUP_SIZE <s sz then sz else VFS_CLEANUP_SIZE)"
    by (auto simp: VFS_CLEANUP_SIZE_def word_greater_zero_iff word_sless_alt)
  from 3 shorter [of cleanup_target 0 "file_block # rest" st left st1] target
  show ?case
    by (cases lru) (auto dest: arg_cong [where f = length])
qed

definition findFreeBlock :: "build \<Rightarrow> S32 \<Rightarrow> nat option \<Rightarrow> LLVFS \<Rightarrow> fatal + (nat option \<times> LLVFS)" where
  "findFreeBlock cfg sz immune st =
     (if \<not> isValid st then Inl InvalidVFS else findFreeBlock_loop cfg sz immune None st)"

subsection \<open>The directory\<close>

definition getMaxSize :: "U32 \<Rightarrow> U8 list \<Rightarrow> S32 \<Rightarrow> LLVFS \<Rightarrow> fatal + (S32 \<times> LLVFS)" where
  "getMaxSize now file_id file_type st =
     (if \<not> isValid st then Inl InvalidVFS
      else case find_block (file_id, file_type) st of
             Some block \<Rightarrow>
               (let st1 = upd_file block (\<lambda>b. b\<lparr>mAccessTime := now\<rparr>) st
                in Inr (mLength (file_heap st1 block), st1))
           | None \<Rightarrow> Inr (0, st))"

definition incLock :: "U32 \<Rightarrow> U8 list \<Rightarrow> S32 \<Rightarrow> EVFSLock \<Rightarrow> LLVFS \<Rightarrow> LLVFS" where
  "incLock now file_id file_type lock st =
     (let spec = (file_id, file_type);
          (block, st1) =
            (case find_block spec st of
               Some block \<Rightarrow> (block, st)
             | None \<Rightarrow>
                 (let (block, st0) =
                        new_file_block (new_LLVFSFileBlock now file_id file_type 0 BLOCK_LENGTH_INVALID) st;
                      st0' = upd_file block (\<lambda>b. b\<lparr>mAccessTime := now\<rparr>) st0
                  in (block, st0'\<lparr>mFileBlocks := map_insert spec block (mFileBlocks st0')\<rparr>)));
          st2 = upd_file block (\<lambda>b. b\<lparr>mLocks := (mLocks b)(lock := mLocks b lock + 1)\<rparr>) st1
      in st2\<lparr>mLockCounts := (mLockCounts st2)(lock := mLockCounts st2 lock + 1)\<rparr>)"

definition decLock :: "U8 list \<Rightarrow> S32 \<Rightarrow> EVFSLock \<Rightarrow> LLVFS \<Rightarrow> LLVFS" where
  "decLock file_id file_type lock st =
     (case find_block (file_id, file_type) st of
        Some block \<Rightarrow>
          (let st1 = (if 0 <s mLocks (file_heap st block) lock
                      then upd_file block (\<lambda>b. b\<lparr>mLocks := (mLocks b)(lock := mLocks b lock - 1)\<rparr>) st
                      else st)
           in st1\<lparr>mLockCounts := (mLockCounts st1)(lock := mLockCounts st1 lock - 1)\<rparr>)
      | None \<Rightarrow> st)"

definition isLocked :: "U8 list \<Rightarrow> S32 \<Rightarrow> EVFSLock \<Rightarrow> LLVFS \<Rightarrow> bool" where
  "isLocked file_id file_type lock st =
     (case find_block (file_id, file_type) st of
        Some block \<Rightarrow> 0 <s mLocks (file_heap st block) lock
      | None \<Rightarrow> False)"

subsection \<open>Reserving space\<close>

text \<open>The size rounded upward to a multiple of 1024 bytes, as \<^verbatim>\<open>setMaxSize\<close> does it.\<close>

definition round_up :: "S32 \<Rightarrow> S32" where
  "round_up max_size =
     (if max_size AND FILE_BLOCK_MASK \<noteq> 0
      then (max_size + FILE_BLOCK_MASK) AND NOT FILE_BLOCK_MASK
      else max_size)"

definition setMaxSize :: "build \<Rightarrow> U32 \<Rightarrow> U8 list \<Rightarrow> S32 \<Rightarrow> S32 \<Rightarrow> LLVFS \<Rightarrow> fatal + (bool \<times> LLVFS)" where
  "setMaxSize cfg now file_id file_type max_size0 st =
     (if \<not> isValid st then Inl InvalidVFS
      else if mReadOnly st then Inl ReadOnlyVFS
      else if max_size0 \<le>s 0 then Inr (False, st)
      else
        let spec = (file_id, file_type);
            found = find_block spec st;
            max_size = round_up max_size0
        in if found \<noteq> None \<and> 0 <s mLength (file_heap st (the found)) then
             (let block = the found;
                  st1 = upd_file block (\<lambda>b. b\<lparr>mAccessTime := now\<rparr>) st;
                  b = file_heap st1 block
              in if max_size = mLength b then Inr (True, st1)
                 else if max_size <s mLength b then
                   (let (free_block, st2) =
                          new_LLVFSBlock (mLocation b + max_size) (mLength b - max_size) st1
                    in then_do (addFreeBlock cfg free_block st2) (\<lambda>st3.
                         let st4 = upd_file block (\<lambda>b. b\<lparr>mLength := max_size\<rparr>) st3
                         in if mLength (file_heap st4 block) <s mSize (file_heap st4 block)
                            then Inl TruncatingVirtualFile
                            else then_do (sync cfg block False st4) (\<lambda>st5. Inr (True, st5))))
                 else
                   (let size_increase = max_size - mLength b;
                        byloc = mFreeBlocksByLocation st1;
                        iter = upper_bound (<) (mLocation b) byloc;
                        adjacent = snd (byloc ! iter)
                    in if iter \<noteq> length byloc \<and>
                          mLocation (free_heap st1 adjacent) = mLocation b + mLength b \<and>
                          size_increase \<le>s mLength (free_heap st1 adjacent)
                       then
                         then_do (useFreeSpace cfg adjacent size_increase st1) (\<lambda>st2.
                           let st3 = upd_file block (\<lambda>b. b\<lparr>mLength := mLength b + size_increase\<rparr>) st2
                           in then_do (sync cfg block False st3) (\<lambda>st4. Inr (True, st4)))
                       else
                         then_do (findFreeBlock cfg max_size (Some block) st1) (\<lambda>(free, st2).
                           case free of
                             None \<Rightarrow> Inr (False, st2)
                           | Some free_block \<Rightarrow>
                               then_do
                                 (if 0 <s mLength (file_heap st2 block) then
                                    (let (new_free_block, st3) =
                                           new_LLVFSBlock (mLocation (file_heap st2 block))
                                             (mLength (file_heap st2 block)) st2
                                     in then_do (addFreeBlock cfg new_free_block st3) (\<lambda>st4.
                                          if 0 <s mSize (file_heap st4 block) then
                                            (let fp1 = fseek_SET (uint (mLocation (file_heap st4 block))) (mDataFP st4);
                                                 (buffer, fp2) = fread (unat (mSize (file_heap st4 block))) fp1;
                                                 fp3 = fseek_SET (uint (mLocation (free_heap st4 free_block))) fp2
                                             in Inr (st4\<lparr>mDataFP := fwrite buffer fp3\<rparr>))
                                          else Inr st4))
                                  else Inr st2) (\<lambda>st5.
                                 let st6 = upd_file block
                                             (\<lambda>b. b\<lparr>mLocation := mLocation (free_heap st5 free_block)\<rparr>) st5;
                                     st7 = upd_file block (\<lambda>b. b\<lparr>mLength := max_size\<rparr>) st6
                                 in then_do (useFreeSpace cfg free_block max_size st7) (\<lambda>st8.
                                      then_do (sync cfg block False st8) (\<lambda>st9. Inr (True, st9)))))))
           else
             then_do (findFreeBlock cfg max_size None st) (\<lambda>(free, st1).
               case free of
                 None \<Rightarrow> Inr (False, st1)
               | Some free_block \<Rightarrow>
                   (let (block, st2) =
                          (case found of
                             Some block \<Rightarrow>
                               (block,
                                upd_file block (\<lambda>b. b\<lparr>mLength := max_size\<rparr>)
                                  (upd_file block
                                     (\<lambda>b. b\<lparr>mLocation := mLocation (free_heap st1 free_block)\<rparr>) st1))
                           | None \<Rightarrow>
                               (let (block, st0) =
                                      new_file_block
                                        (new_LLVFSFileBlock now file_id file_type
                                           (mLocation (free_heap st1 free_block)) max_size) st1
                                in (block, st0\<lparr>mFileBlocks := map_insert spec block (mFileBlocks st0)\<rparr>)))
                    in then_do (useFreeSpace cfg free_block max_size st2) (\<lambda>st3.
                         let st4 = upd_file block (\<lambda>b. b\<lparr>mAccessTime := now\<rparr>) st3
                         in then_do (sync cfg block False st4) (\<lambda>st5. Inr (True, st5))))))"

subsection \<open>Writing data\<close>

text \<open>
  \<^verbatim>\<open>storeData(file_id, file_type, buffer, location, length)\<close>. The bytes written are the
  first \<^verbatim>\<open>length\<close> bytes of the buffer, after the clamp to the reservation.
\<close>

definition storeData :: "build \<Rightarrow> U32 \<Rightarrow> U8 list \<Rightarrow> S32 \<Rightarrow> U8 list \<Rightarrow> S32 \<Rightarrow> S32 \<Rightarrow> LLVFS \<Rightarrow> fatal + (S32 \<times> LLVFS)" where
  "storeData cfg now file_id file_type buffer location0 len0 st =
     (if \<not> isValid st then Inl InvalidVFS
      else if mReadOnly st then Inl ReadOnlyVFS
      else if LL_DEBUG cfg \<and> \<not> 0 <s len0 then Inl AssertFailed
      else case find_block (file_id, file_type) st of
             None \<Rightarrow> Inr (0, st)
           | Some block \<Rightarrow>
               (let location = (if location0 = - 1 then mSize (file_heap st block) else location0)
                in if LL_DEBUG cfg \<and> \<not> 0 \<le>s location then Inl AssertFailed
                   else
                     let st1 = upd_file block (\<lambda>b. b\<lparr>mAccessTime := now\<rparr>) st;
                         b = file_heap st1 block
                     in if mLength b = BLOCK_LENGTH_INVALID then Inr (len0, st1)
                        else if mLength b <s location then Inr (len0, st1)
                        else
                          let len = (if mLength b - location <s len0 then mLength b - location else len0);
                              file_location = location + mLocation b;
                              fp1 = fseek_SET (uint file_location) (mDataFP st1);
                              written = take (nat (sint len)) buffer;
                              write_len = (of_nat (length written) :: S32);
                              st2 = st1\<lparr>mDataFP := fwrite written fp1\<rparr>
                          in if mSize (file_heap st2 block) <s location + len then
                               then_do
                                 (sync cfg block False
                                    (upd_file block (\<lambda>b. b\<lparr>mSize := location + write_len\<rparr>) st2))
                                 (\<lambda>st3. Inr (write_len, st3))
                             else Inr (write_len, st2)))"

subsection \<open>Opening: the replay of the index file\<close>

text \<open>
  The constructor from the point where the data file is open ("determine the real file
  size") to its end, without the marker file. The enumerators \<^verbatim>\<open>LLAssetType::AT_NONE\<close> and
  \<^verbatim>\<open>LLAssetType::AT_COUNT\<close> are declared outside the sources at hand and are parameters.
\<close>

text \<open>The sanity check of a record read from the index.\<close>

definition block_sane :: "S32 \<Rightarrow> S32 \<Rightarrow> U32 \<Rightarrow> LLVFSFileBlock \<Rightarrow> bool" where
  "block_sane AT_NONE AT_COUNT data_size block =
     (0 <s mLength block \<and>
      mLength block \<le> data_size \<and>
      0 \<le> mLocation block \<and>
      mLocation block < data_size \<and>
      0 <s mSize block \<and>
      mSize block \<le>s mLength block \<and>
      AT_NONE \<le>s mFileType block \<and>
      mFileType block <s AT_COUNT)"

text \<open>What the loop does with one record: keep it, give up the VFS as corrupt, or note a hole.\<close>

datatype verdict = Keep | Corrupt | Hole

definition classify :: "S32 \<Rightarrow> S32 \<Rightarrow> U32 \<Rightarrow> LLVFSFileBlock \<Rightarrow> verdict" where
  "classify AT_NONE AT_COUNT data_size block =
     (if block_sane AT_NONE AT_COUNT data_size block then Keep
      else if mLength block \<noteq> 0 \<and> 0 <s mSize block then Corrupt
      else Hole)"

definition insertFirstLL :: "'a LLVFSBlock_scheme \<Rightarrow> 'b LLVFSBlock_scheme \<Rightarrow> bool" where
  "insertFirstLL first second =
     (if mLocation first \<noteq> mLocation second then mLocation first < mLocation second
      else mLength first <s mLength second)"

text \<open>
  Modelled from the spec: \<^verbatim>\<open>LLLinkedList::addDataSorted\<close> is defined outside the sources at
  hand; the spec has the records inserted "into a location-sorted scratch list". The new
  element goes before the first one that \<^verbatim>\<open>insertFirstLL\<close> puts it before.
\<close>

fun addDataSorted :: "(nat \<Rightarrow> LLVFSFileBlock) \<Rightarrow> nat \<Rightarrow> nat list \<Rightarrow> nat list" where
  "addDataSorted h d [] = [d]"
| "addDataSorted h d (e # es) =
     (if insertFirstLL (h d) (h e) then d # e # es else e # addDataSorted h d es)"

text \<open>
  A pass of the constructor over the records either runs to its end, with a result, or
  gives up the VFS as corrupt (the \<^verbatim>\<open>return\<close> after \<^verbatim>\<open>mValid = VFSVALID_BAD_CORRUPT\<close>); in
  both cases the object is in the state the pass has brought it to.
\<close>

datatype 'a pass = Finished 'a LLVFS | GaveUp LLVFS

text \<open>
  The loop \<^verbatim>\<open>while (tmp_ptr < buffer + fbuf.st_size)\<close>: \<open>off\<close> is \<^verbatim>\<open>tmp_ptr - buffer\<close> and
  the list the bytes from \<^verbatim>\<open>tmp_ptr\<close> on. A last record of fewer than 34 bytes makes
  \<^verbatim>\<open>deserialize\<close> read past the buffer.
\<close>

function parse_index :: "build \<Rightarrow> S32 \<Rightarrow> S32 \<Rightarrow> U32 \<Rightarrow> U32 \<Rightarrow> nat \<Rightarrow> U8 list \<Rightarrow> nat list \<Rightarrow> LLVFS \<Rightarrow> fatal + nat list pass" where
  "parse_index cfg AT_NONE AT_COUNT now data_size off [] files_by_loc st = Inr (Finished files_by_loc st)"
| "parse_index cfg AT_NONE AT_COUNT now data_size off (x # xs) files_by_loc st =
     (if length (x # xs) < SERIAL_SIZE then Inl ReadPastBuffer
      else
        let (block, st1) =
              new_file_block
                (deserialize (LL_LITTLE_ENDIAN cfg) (x # xs) (of_nat off)
                   (new_LLVFSFileBlock now (replicate 16 0) AT_NONE 0 0)) st
        in case classify AT_NONE AT_COUNT data_size (file_heap st1 block) of
             Keep \<Rightarrow>
               parse_index cfg AT_NONE AT_COUNT now data_size (off + SERIAL_SIZE) (drop SERIAL_SIZE (x # xs))
                 (addDataSorted (file_heap st1) block files_by_loc)
                 (st1\<lparr>mFileBlocks := map_insert (spec_of (file_heap st1 block)) block (mFileBlocks st1)\<rparr>)
           | Corrupt \<Rightarrow> Inr (GaveUp st1)
           | Hole \<Rightarrow>
               parse_index cfg AT_NONE AT_COUNT now data_size (off + SERIAL_SIZE) (drop SERIAL_SIZE (x # xs))
                 files_by_loc
                 (st1\<lparr>mIndexHoles := mIndexHoles st1 @ [of_nat off]\<rparr>))"
  by pat_completeness auto

termination parse_index
  by (relation "measure (\<lambda>(cfg, AT_NONE, AT_COUNT, now, data_size, off, buffer, files_by_loc, st).
        length buffer)") (auto simp: SERIAL_SIZE_def)

text \<open>
  The sweep over \<^verbatim>\<open>files_by_loc\<close> that finds the free blocks between the file blocks. It
  gives up on overlapping entries.
\<close>

fun discover_free :: "build \<Rightarrow> U32 \<Rightarrow> nat \<Rightarrow> nat list \<Rightarrow> LLVFS \<Rightarrow> fatal + nat pass" where
  "discover_free cfg data_size last_file_block [] st = Inr (Finished last_file_block st)"
| "discover_free cfg data_size last_file_block (cur_file_block # rest) st =
     (let cur = file_heap st cur_file_block;
          last = file_heap st last_file_block
      in if mLocation cur = mLocation last \<and> mLength cur = mLength last then
           (let st1 = st\<lparr>mFileBlocks := filter (\<lambda>e. fst e \<noteq> spec_of cur) (mFileBlocks st)\<rparr>
            in then_do
                 (if 0 <s mLength cur then
                    (let (block, st2) = new_LLVFSBlock (mLocation cur) (mLength cur) st1
                     in addFreeBlock cfg block st2)
                  else Inr st1) (\<lambda>st3.
               then_do (sync cfg cur_file_block True st3) (\<lambda>st4.
               then_do (sync cfg last_file_block True st4) (\<lambda>st5.
                 discover_free cfg data_size cur_file_block rest st5))))
         else
           (let loc = mLocation last + mLength last;
                len = mLocation cur - loc
            in if len <s 0 \<or> data_size < loc then Inr (GaveUp st)
               else
                 then_do
                   (if 0 <s len then
                      (let (block, st1) = new_LLVFSBlock loc len st
                       in addFreeBlock cfg block st1)
                    else Inr st) (\<lambda>st2.
                   discover_free cfg data_size cur_file_block rest st2)))"

text \<open>
  What the constructor leaves: the object, and whether it removed the index file and the
  data file from the host.
\<close>

record opened =
  vfs :: LLVFS
  index_removed :: bool
  data_removed :: bool

definition blank_LLVFS :: "bool \<Rightarrow> U8 list \<Rightarrow> U8 list \<Rightarrow> LLVFS" where
  "blank_LLVFS read_only data index =
     \<lparr>mValid = VFSVALID_OK, mReadOnly = read_only, mLockCounts = (\<lambda>_. 0), mFileBlocks = [],
      mFreeBlocksByLocation = [], mFreeBlocksByLength = [], mIndexHoles = [],
      mIndexFP = \<lparr>fbytes = index, fpos = length index\<rparr>,
      mDataFP = \<lparr>fbytes = data, fpos = length data\<rparr>,
      file_heap = (\<lambda>_. new_LLVFSFileBlock 0 [] 0 0 0),
      free_heap = (\<lambda>_. \<lparr>mLocation = 0, mLength = 0\<rparr>),
      next_addr = 0\<rparr>"

text \<open>The return with \<^verbatim>\<open>VFSVALID_BAD_CORRUPT\<close>, after both files are closed and removed.\<close>

definition bad_corrupt :: "LLVFS \<Rightarrow> opened" where
  "bad_corrupt st =
     \<lparr>vfs = st\<lparr>mValid := VFSVALID_BAD_CORRUPT\<rparr>, index_removed = True, data_removed = True\<rparr>"

text \<open>
  The constructor from "discover all the free blocks" to its end: the free block before the
  first file block, the sweep, and the free block after the last file block.
\<close>

definition open_sweep :: "build \<Rightarrow> U32 \<Rightarrow> nat list \<Rightarrow> LLVFS \<Rightarrow> fatal + opened" where
  "open_sweep cfg data_size files_by_loc st1 =
     (case files_by_loc of
        [] \<Rightarrow>
          (let (first_block, st2) = new_LLVFSBlock 0 data_size st1
           in then_do (addFreeBlock cfg first_block st2) (\<lambda>st3.
                Inr \<lparr>vfs = st3\<lparr>mValid := VFSVALID_OK\<rparr>,
                     index_removed = False, data_removed = False\<rparr>))
      | first # rest \<Rightarrow>
          then_do
            (if 0 < mLocation (file_heap st1 first) then
               (let (block, st2) = new_LLVFSBlock 0 (mLocation (file_heap st1 first)) st1
                in addFreeBlock cfg block st2)
             else Inr st1) (\<lambda>st3.
          then_do (discover_free cfg data_size first rest st3) (\<lambda>swept.
            case swept of
              GaveUp st4 \<Rightarrow> Inr (bad_corrupt st4)
            | Finished last_file_block st4 \<Rightarrow>
                (let loc = mLocation (file_heap st4 last_file_block) +
                           mLength (file_heap st4 last_file_block)
                 in then_do
                      (if loc < data_size then
                         (let (block, st5) = new_LLVFSBlock loc (data_size - loc) st4
                          in addFreeBlock cfg block st5)
                       else Inr st4) (\<lambda>st6.
                      Inr \<lparr>vfs = st6\<lparr>mValid := VFSVALID_OK\<rparr>,
                           index_removed = False, data_removed = False\<rparr>)))))"

definition LLVFS_open :: "build \<Rightarrow> S32 \<Rightarrow> S32 \<Rightarrow> U32 \<Rightarrow> bool \<Rightarrow> U8 list \<Rightarrow> U8 list option \<Rightarrow> fatal + opened" where
  "LLVFS_open cfg AT_NONE AT_COUNT now read_only data index_file =
     (let data_size = (of_nat (length data) :: U32)
      in case (case index_file of
                 Some index \<Rightarrow> if SERIAL_SIZE \<le> length index then Some index else None
               | None \<Rightarrow> None) of
           Some index \<Rightarrow>
             then_do
               (parse_index cfg AT_NONE AT_COUNT now data_size 0 index []
                  (blank_LLVFS read_only data index)) (\<lambda>parsed.
               case parsed of
                 GaveUp st1 \<Rightarrow> Inr (bad_corrupt st1)
               | Finished files_by_loc st1 \<Rightarrow> open_sweep cfg data_size files_by_loc st1)
         | None \<Rightarrow>
             (let st = blank_LLVFS read_only data []
              in if read_only then
                   Inr \<lparr>vfs = st\<lparr>mValid := VFSVALID_BAD_CANNOT_OPEN_READONLY\<rparr>,
                        index_removed = False, data_removed = False\<rparr>
                 else
                   (let (first_block, st1) =
                          new_LLVFSBlock 0 (if data_size \<noteq> 0 then data_size else 0x40000000) st
                    in then_do (addFreeBlock cfg first_block st1) (\<lambda>st2.
                         Inr \<lparr>vfs = st2\<lparr>mValid := VFSVALID_OK\<rparr>,
                              index_removed = False, data_removed = False\<rparr>))))"

text \<open>
  The verdict of the loop on the record \<open>i\<close> of a buffer whose first byte is at the offset
  \<open>off\<close> of the index file, and the offsets of the holes among the first \<open>n\<close> records.
\<close>

definition record_verdict :: "build \<Rightarrow> S32 \<Rightarrow> S32 \<Rightarrow> U32 \<Rightarrow> U32 \<Rightarrow> nat \<Rightarrow> U8 list \<Rightarrow> nat \<Rightarrow> verdict" where
  "record_verdict cfg AT_NONE AT_COUNT now data_size off buffer i =
     classify AT_NONE AT_COUNT data_size
       (deserialize (LL_LITTLE_ENDIAN cfg) (drop (SERIAL_SIZE * i) buffer) (of_nat (off + SERIAL_SIZE * i))
          (new_LLVFSFileBlock now (replicate 16 0) AT_NONE 0 0))"

definition hole_offsets :: "build \<Rightarrow> S32 \<Rightarrow> S32 \<Rightarrow> U32 \<Rightarrow> U32 \<Rightarrow> nat \<Rightarrow> U8 list \<Rightarrow> nat \<Rightarrow> S32 list" where
  "hole_offsets cfg AT_NONE AT_COUNT now data_size off buffer n =
     map (\<lambda>i. of_nat (off + SERIAL_SIZE * i))
       (filter (\<lambda>i. record_verdict cfg AT_NONE AT_COUNT now data_size off buffer i = Hole) [0..<n])"

subsection \<open>The invariant of the free lists\<close>








subsection \<open>Inputs of the examples\<close>

definition example_block :: LLVFSFileBlock where
  "example_block =
     \<lparr>mLocation = 4096, mLength = 8192, mFileID = [1, 2, 3, 4, 5, 6, 7, 8, 9, 10, 11, 12, 13, 14, 15, 16],
      mFileType = - 1, mSize = 1000, mIndexLocation = 68, mAccessTime = 0x12345678,
      mLocks = (\<lambda>_. 0)\<rparr>"

text \<open>The sum over the directory of the blocks' counters of one kind of lock.\<close>

definition sum_locks :: "LLVFS \<Rightarrow> EVFSLock \<Rightarrow> int" where
  "sum_locks st lock = (\<Sum>e \<leftarrow> mFileBlocks st. sint (mLocks (file_heap st (snd e)) lock))"

text \<open>
  The index file after a write of the bytes \<open>written\<close> at the position \<open>pos\<close>, and the
  bytes that \<^verbatim>\<open>sync\<close> writes for a block: 34 zero bytes for a removal, else the record.
\<close>

definition index_write :: "nat \<Rightarrow> U8 list \<Rightarrow> U8 list \<Rightarrow> FILE" where
  "index_write pos written file =
     \<lparr>fbytes = take pos file @ replicate (pos - length file) 0 @ written @ drop (pos + length written) file,
      fpos = pos + length written\<rparr>"

definition index_record :: "build \<Rightarrow> bool \<Rightarrow> LLVFSFileBlock \<Rightarrow> U8 list" where
  "index_record cfg remove b =
     (if remove then replicate SERIAL_SIZE 0 else serialize (LL_LITTLE_ENDIAN cfg) b)"

text \<open>A VFS with one file block, at address 0, and an index file of 68 bytes.\<close>

definition example_vfs :: "S32 \<Rightarrow> S32 list \<Rightarrow> LLVFS" where
  "example_vfs idx holes =
     (blank_LLVFS False [] (replicate 68 7))
       \<lparr>mFileBlocks := [(spec_of example_block, 0)],
        mIndexHoles := holes,
        file_heap := (\<lambda>_. example_block\<lparr>mIndexLocation := idx\<rparr>)\<rparr>"

text \<open>An index record of 34 bytes with the given location, length and size.\<close>

definition example_record :: "U32 \<Rightarrow> S32 \<Rightarrow> S32 \<Rightarrow> U8 list" where
  "example_record loc len sz =
     le32 loc @ le32 len @ le32 7 @ replicate 16 1 @ le16 0 @ le32 sz"





section \<open>Properties\<close>

subsection \<open>Bytes and words\<close>

lemma mask_0x000000FF: "(0x000000FF::U32) = mask 8"
  by (simp add: mask_eq_exp_minus_1)

lemma mask_0x0000FF00: "(0x0000FF00::U32) = push_bit 8 (mask 8)"
  by (simp add: mask_eq_exp_minus_1)

lemma mask_0x00FF0000: "(0x00FF0000::U32) = push_bit 16 (mask 8)"
  by (simp add: mask_eq_exp_minus_1)

lemma mask_0xFF000000: "(0xFF000000::U32) = push_bit 24 (mask 8)"
  by (simp add: mask_eq_exp_minus_1)

lemma mask_0x00FF: "(0x00FF::U16) = mask 8"
  by (simp add: mask_eq_exp_minus_1)

lemma mask_0xFF00: "(0xFF00::U16) = push_bit 8 (mask 8)"
  by (simp add: mask_eq_exp_minus_1)

lemma from_le32_le32: "from_le32 (le32 x @ rest) = x"
  unfolding le32_def
  apply simp
  apply (rule bit_word_eqI)
  apply (auto simp add: bit_simps)
  subgoal for n by (cases "n < 16"; cases "n < 24"; simp)
  done

lemma from_le16_le16: "from_le16 (le16 x @ rest) = x"
  unfolding le16_def
  apply simp
  apply (rule bit_word_eqI)
  apply (auto simp add: bit_simps)
  done

lemma le32_swizzle32: "le32 (swizzle32 x) = rev (le32 x)"
  unfolding le32_def swizzle32_def mask_0x000000FF mask_0x0000FF00 mask_0x00FF0000 mask_0xFF000000
  apply simp
  apply (intro conjI; rule bit_word_eqI)
     apply (auto simp add: bit_simps)
  done

lemma le16_swizzle16: "le16 (swizzle16 x) = rev (le16 x)"
  unfolding le16_def swizzle16_def mask_0x00FF mask_0xFF00
  apply simp
  apply (intro conjI; rule bit_word_eqI)
   apply (auto simp add: bit_simps)
  done

lemma length_le32 [simp]: "length (le32 x) = 4"
  by (simp add: le32_def)

lemma length_le16 [simp]: "length (le16 x) = 2"
  by (simp add: le16_def)

lemma host_word32_host_bytes32: "host_word32 le (host_bytes32 le x) = x"
  using from_le32_le32 [of x "[]"] by (simp add: host_word32_def host_bytes32_def)

lemma host_word16_host_bytes16: "host_word16 le (host_bytes16 le x) = x"
  using from_le16_le16 [of x "[]"] by (simp add: host_word16_def host_bytes16_def)

text \<open>Out of a host value, \<^verbatim>\<open>swizzleCopy\<close> makes the little-endian bytes on every host.\<close>

lemma swizzleCopy_out32: "swizzleCopy le 4 (host_bytes32 le x) = le32 x"
  by (simp add: swizzleCopy_def host_word32_host_bytes32 le32_swizzle32)
    (simp add: host_bytes32_def le32_swizzle32)

lemma swizzleCopy_out16: "swizzleCopy le 2 (host_bytes16 le x) = le16 x"
  by (simp add: swizzleCopy_def host_word16_host_bytes16 le16_swizzle16)
    (simp add: host_bytes16_def le16_swizzle16)

text \<open>Into a host value, it reads little-endian bytes on every host.\<close>

lemma swizzleCopy_in32: "host_word32 le (swizzleCopy le 4 (le32 x @ rest)) = x"
proof (cases le)
  case True
  then show ?thesis
    using from_le32_le32 [of x "[]"] by (simp add: swizzleCopy_def host_word32_def)
next
  case False
  have "host_word32 False (le32 x @ rest) = swizzle32 x"
  proof -
    have "from_le32 (le32 (swizzle32 x) @ []) = swizzle32 x"
      by (rule from_le32_le32)
    then show ?thesis
      by (simp add: host_word32_def le32_swizzle32)
  qed
  moreover have "le32 (swizzle32 (swizzle32 x)) = le32 x"
    by (simp add: le32_swizzle32)
  then have "swizzle32 (swizzle32 x) = x"
    using from_le32_le32 [of "swizzle32 (swizzle32 x)" "[]"] from_le32_le32 [of x "[]"] by simp
  ultimately show ?thesis
    using False by (simp add: swizzleCopy_def host_word32_host_bytes32)
qed

lemma swizzleCopy_in16: "host_word16 le (swizzleCopy le 2 (le16 x @ rest)) = x"
proof (cases le)
  case True
  then show ?thesis
    using from_le16_le16 [of x "[]"] by (simp add: swizzleCopy_def host_word16_def)
next
  case False
  have "host_word16 False (le16 x @ rest) = swizzle16 x"
  proof -
    have "from_le16 (le16 (swizzle16 x) @ []) = swizzle16 x"
      by (rule from_le16_le16)
    then show ?thesis
      by (simp add: host_word16_def le16_swizzle16)
  qed
  moreover have "le16 (swizzle16 (swizzle16 x)) = le16 x"
    by (simp add: le16_swizzle16)
  then have "swizzle16 (swizzle16 x) = x"
    using from_le16_le16 [of "swizzle16 (swizzle16 x)" "[]"] from_le16_le16 [of x "[]"] by simp
  ultimately show ?thesis
    using False by (simp add: swizzleCopy_def host_word16_host_bytes16)
qed

lemma scast_ucast_S16:
  fixes t :: S32
  assumes "- 32768 \<le> sint t" and "sint t < 32768"
  shows "scast (ucast t :: S16) = t"
proof -
  have "sint (ucast t :: S16) = signed_take_bit 15 (uint t)"
    by (simp add: signed_ucast_eq)
  also have "\<dots> = signed_take_bit 15 (signed_take_bit 31 (uint t))"
    by simp
  also have "\<dots> = signed_take_bit 15 (sint t)"
    by (simp only: sint_uint) simp
  also have "\<dots> = sint t"
    using assms by (intro signed_take_bit_int_eq_self) simp_all
  finally have small: "sint (ucast t :: S16) = sint t" .
  have "sint (scast (ucast t :: S16) :: S32) = signed_take_bit 31 (sint (ucast t :: S16))"
    by (simp add: signed_scast_eq)
  also have "\<dots> = sint t"
    unfolding small using assms by (intro signed_take_bit_int_eq_self) simp_all
  finally show ?thesis
    by (rule signed_word_eqI)
qed

lemma serialize_layout:
  "serialize le b =
     le32 (mLocation b) @ le32 (mLength b) @ le32 (mAccessTime b) @ take 16 (mFileID b) @
     le16 (ucast (mFileType b)) @ le32 (mSize b)"
  by (simp add: serialize_def swizzleCopy_out32 swizzleCopy_out16)


subsection \<open>The index record\<close>

text \<open>
  Claim C7. For every file block whose UUID has its 16 bytes and whose asset type is a value
  of an \<^verbatim>\<open>S16\<close> (as every enumerator of the asset types is), \<^verbatim>\<open>serialize\<close> writes the
  fixed 34-byte little-endian layout on a host of either byte order (location at offset 0,
  length at 4, access time at 8, the UUID's bytes at 12, the type as 16 bits at 28, size at
  30), and \<^verbatim>\<open>deserialize\<close> of that buffer gives back the six fields.
\<close>

theorem serialize_deserialize_identity:
  assumes "length (mFileID b) = 16"
    and "- 32768 \<le> sint (mFileType b)" and "sint (mFileType b) < 32768"
  shows "serialize le b =
           le32 (mLocation b) @ le32 (mLength b) @ le32 (mAccessTime b) @ mFileID b @
           le16 (ucast (mFileType b)) @ le32 (mSize b) \<and>
         length (serialize le b) = SERIAL_SIZE \<and>
         mLocation (deserialize le (serialize le b) index_loc b0) = mLocation b \<and>
         mLength (deserialize le (serialize le b) index_loc b0) = mLength b \<and>
         mAccessTime (deserialize le (serialize le b) index_loc b0) = mAccessTime b \<and>
         mFileID (deserialize le (serialize le b) index_loc b0) = mFileID b \<and>
         mFileType (deserialize le (serialize le b) index_loc b0) = mFileType b \<and>
         mSize (deserialize le (serialize le b) index_loc b0) = mSize b"
proof -
  let ?s = "serialize le b"
  have lay: "?s = le32 (mLocation b) @ le32 (mLength b) @ le32 (mAccessTime b) @ mFileID b @
           le16 (ucast (mFileType b)) @ le32 (mSize b)"
    using assms(1) by (simp add: serialize_layout)
  have len: "length ?s = SERIAL_SIZE"
    using assms(1) by (simp add: lay SERIAL_SIZE_def)
  have d4: "drop 4 ?s = le32 (mLength b) @ le32 (mAccessTime b) @ mFileID b @
           le16 (ucast (mFileType b)) @ le32 (mSize b)"
    by (simp add: lay)
  have d8: "drop 8 ?s = le32 (mAccessTime b) @ mFileID b @
           le16 (ucast (mFileType b)) @ le32 (mSize b)"
    by (simp add: lay)
  have d12: "drop 12 ?s = mFileID b @ le16 (ucast (mFileType b)) @ le32 (mSize b)"
    by (simp add: lay)
  have d28: "drop 28 ?s = le16 (ucast (mFileType b)) @ le32 (mSize b)"
    using assms(1) by (simp add: lay)
  have d30: "drop 30 ?s = le32 (mSize b) @ []"
    using assms(1) by (simp add: lay)
  have f1: "mLocation (deserialize le ?s index_loc b0) = mLocation b"
    unfolding deserialize_def Let_def by (subst lay) (simp add: swizzleCopy_in32)
  have f2: "mLength (deserialize le ?s index_loc b0) = mLength b"
    unfolding deserialize_def Let_def d4 by (simp add: swizzleCopy_in32)
  have f3: "mAccessTime (deserialize le ?s index_loc b0) = mAccessTime b"
    unfolding deserialize_def Let_def d8 by (simp add: swizzleCopy_in32)
  have f4: "mFileID (deserialize le ?s index_loc b0) = mFileID b"
    unfolding deserialize_def Let_def d12 using assms(1) by simp
  have f5: "mFileType (deserialize le ?s index_loc b0) = mFileType b"
    unfolding deserialize_def Let_def d28 using assms(2,3)
    by (simp add: swizzleCopy_in16 scast_ucast_S16)
  have f6: "mSize (deserialize le ?s index_loc b0) = mSize b"
    unfolding deserialize_def Let_def d30
    using swizzleCopy_in32 [of le "mSize b" "[]"] by simp
  from lay len f1 f2 f3 f4 f5 f6 show ?thesis by blast
qed


theorem serialize_deserialize_identity_witness:
  "length (mFileID example_block) = 16 \<and>
   - 32768 \<le> sint (mFileType example_block) \<and> sint (mFileType example_block) < 32768 \<and>
   length (serialize False example_block) = SERIAL_SIZE \<and>
   mLocation (deserialize False (serialize False example_block) 0 (new_LLVFSFileBlock 0 [] 0 0 0)) = 4096 \<and>
   mLength (deserialize False (serialize False example_block) 0 (new_LLVFSFileBlock 0 [] 0 0 0)) = 8192 \<and>
   mFileType (deserialize False (serialize False example_block) 0 (new_LLVFSFileBlock 0 [] 0 0 0)) = - 1 \<and>
   mSize (deserialize False (serialize False example_block) 0 (new_LLVFSFileBlock 0 [] 0 0 0)) = 1000"
proof -
  have h1: "length (mFileID example_block) = 16"
    by (simp add: example_block_def)
  have h2: "- 32768 \<le> sint (mFileType example_block)"
    by (simp add: example_block_def)
  have h3: "sint (mFileType example_block) < 32768"
    by (simp add: example_block_def)
  have v: "mLocation example_block = 4096" "mLength example_block = 8192"
    "mFileType example_block = - 1" "mSize example_block = 1000"
    by (simp_all add: example_block_def)
  from serialize_deserialize_identity [OF h1 h2 h3, of False 0 "new_LLVFSFileBlock 0 [] 0 0 0"]
  show ?thesis
    using h1 h2 h3 unfolding v by blast
qed

subsection \<open>The directory\<close>

lemma spec_less_total: "\<not> spec_less a b \<Longrightarrow> \<not> spec_less b a \<Longrightarrow> a = b"
  by (cases a; cases b) (auto simp: spec_less_def split: if_splits)

lemma spec_less_irrefl: "\<not> spec_less a a"
  by (simp add: spec_less_def)

lemma map_of_map_insert_new:
  "map_of m k = None \<Longrightarrow> map_of (map_insert k v m) k = Some v"
proof (induction m)
  case Nil
  then show ?case by simp
next
  case (Cons e m)
  then show ?case
    by (cases e) (auto simp: spec_less_irrefl dest: spec_less_total split: if_splits)
qed

lemma map_of_map_insert_other:
  "k' \<noteq> k \<Longrightarrow> map_of (map_insert k v m) k' = map_of m k'"
  by (induction m) auto

lemmas run_defs = getMaxSize_def incLock_def decLock_def blank_LLVFS_def isValid_def find_block_def
  new_file_block_def new_LLVFSFileBlock_def upd_file_def BLOCK_LENGTH_INVALID_def spec_less_def


text \<open>
  Claim C9, as amended. \<^verbatim>\<open>getMaxSize\<close> returns the field \<^verbatim>\<open>mLength\<close> of the file block when
  the directory has a record of the key, and 0 when it has none. The field of a dummy record
  is the sentinel \<open>-1\<close>, which is then the value returned.
\<close>

theorem getMaxSize_result:
  "isValid st \<Longrightarrow>
     map_sum id fst (getMaxSize now file_id file_type st) =
       Inr (case find_block (file_id, file_type) st of
              Some block \<Rightarrow> mLength (file_heap st block)
            | None \<Rightarrow> 0)"
  by (simp add: getMaxSize_def upd_file_def split: option.splits)


theorem getMaxSize_result_witness:
  "isValid (blank_LLVFS False [] []) \<and>
   map_sum id fst (getMaxSize 7 (replicate 16 1) 0 (blank_LLVFS False [] [])) = Inr 0 \<and>
   (let st = incLock 5 (replicate 16 1) 0 VFSLOCK_READ (blank_LLVFS False [] [])
    in isValid st \<and> find_block (replicate 16 1, 0) st = Some 0 \<and>
       map_sum id fst (getMaxSize 7 (replicate 16 1) 0 st) = Inr (mLength (file_heap st 0)))"
  using getMaxSize_result [where st = "blank_LLVFS False [] []" and now = 7
          and file_id = "replicate 16 1" and file_type = 0]
    getMaxSize_result [where st = "incLock 5 (replicate 16 1) 0 VFSLOCK_READ (blank_LLVFS False [] [])"
          and now = 7 and file_id = "replicate 16 1" and file_type = 0]
  by (simp add: run_defs Let_def)

text \<open>
  Claim C9 as stated fails: after \<^verbatim>\<open>incLock\<close> on a key without a record, the record is a
  dummy and \<^verbatim>\<open>getMaxSize\<close> returns \<open>-1\<close>, a negative value.
\<close>

theorem getMaxSize_dummy_negative:
  "map_sum id fst
     (getMaxSize 7 (replicate 16 1) 0
        (incLock 5 (replicate 16 1) 0 VFSLOCK_READ (blank_LLVFS False [] []))) = Inr (- 1) \<and>
   (- 1 :: S32) <s 0"
  by (simp add: run_defs word_sless_alt)


text \<open>
  Claim C10. \<^verbatim>\<open>decLock\<close> on a key without a record changes nothing. On a record whose
  counter of the kind is zero it leaves every block as it is, the counter at zero, and still
  takes one from the global count of the kind; the global count can so fall below the sum
  of the blocks' counters, as it does in the witness.
\<close>

theorem decLock_absent_or_zero:
  "(find_block (file_id, file_type) st = None \<longrightarrow> decLock file_id file_type lock st = st) \<and>
   (find_block (file_id, file_type) st = Some block \<and> mLocks (file_heap st block) lock = 0 \<longrightarrow>
      file_heap (decLock file_id file_type lock st) = file_heap st \<and>
      mLocks (file_heap (decLock file_id file_type lock st) block) lock = 0 \<and>
      mLockCounts (decLock file_id file_type lock st) lock = mLockCounts st lock - 1 \<and>
      (\<forall>l. l \<noteq> lock \<longrightarrow> mLockCounts (decLock file_id file_type lock st) l = mLockCounts st l))"
  by (simp add: decLock_def)

theorem decLock_witness:
  "(let st = decLock (replicate 16 1) 0 VFSLOCK_READ
               (incLock 5 (replicate 16 1) 0 VFSLOCK_READ (blank_LLVFS False [] []));
        st' = decLock (replicate 16 1) 0 VFSLOCK_READ st
    in find_block (replicate 16 1, 0) st = Some 0 \<and>
       mLocks (file_heap st 0) VFSLOCK_READ = 0 \<and>
       mLockCounts st VFSLOCK_READ = 0 \<and>
       mLocks (file_heap st' 0) VFSLOCK_READ = 0 \<and>
       mLockCounts st' VFSLOCK_READ = - 1 \<and>
       sint (mLockCounts st' VFSLOCK_READ) < sum_locks st' VFSLOCK_READ)"
  using decLock_absent_or_zero [where file_id = "replicate 16 1" and file_type = 0
          and st = "decLock (replicate 16 1) 0 VFSLOCK_READ
               (incLock 5 (replicate 16 1) 0 VFSLOCK_READ (blank_LLVFS False [] []))"
          and block = 0 and lock = VFSLOCK_READ]
  by (simp add: run_defs sum_locks_def Let_def word_sless_alt)


subsection \<open>Writing to a dummy record\<close>

text \<open>
  Claim C8. On a valid VFS open for writing, \<^verbatim>\<open>storeData\<close> on a key whose record has the
  invalid length returns the requested length; the state it leaves is the state before with
  the access time of the block set, so the data file and everything else is unchanged. (A
  debug build asserts a positive length and a location that is not negative.)
\<close>

theorem storeData_dummy:
  assumes "isValid st" and "\<not> mReadOnly st"
    and "find_block (file_id, file_type) st = Some block"
    and "mLength (file_heap st block) = BLOCK_LENGTH_INVALID"
    and "LL_DEBUG cfg \<longrightarrow>
           0 <s len \<and> 0 \<le>s (if location = - 1 then mSize (file_heap st block) else location)"
  shows "storeData cfg now file_id file_type buffer location len st =
           Inr (len, st\<lparr>file_heap := (file_heap st)(block := (file_heap st block)\<lparr>mAccessTime := now\<rparr>)\<rparr>)"
  using assms by (auto simp: storeData_def upd_file_def Let_def)


theorem storeData_dummy_witness:
  "(let st = incLock 5 (replicate 16 1) 0 VFSLOCK_READ (blank_LLVFS False [] [])
    in isValid st \<and> \<not> mReadOnly st \<and> find_block (replicate 16 1, 0) st = Some 0 \<and>
       mLength (file_heap st 0) = BLOCK_LENGTH_INVALID \<and>
       storeData \<lparr>LL_LITTLE_ENDIAN = True, LL_DEBUG = True\<rparr> 9 (replicate 16 1) 0 [1, 2, 3] 0 3 st =
         Inr (3, st\<lparr>file_heap := (file_heap st)(0 := (file_heap st 0)\<lparr>mAccessTime := 9\<rparr>)\<rparr>) \<and>
       mDataFP st = \<lparr>fbytes = [], fpos = 0\<rparr>)"
  using storeData_dummy [where st = "incLock 5 (replicate 16 1) 0 VFSLOCK_READ (blank_LLVFS False [] [])"
          and cfg = "\<lparr>LL_LITTLE_ENDIAN = True, LL_DEBUG = True\<rparr>" and now = 9
          and file_id = "replicate 16 1" and file_type = 0 and block = 0
          and buffer = "[1, 2, 3]" and location = 0 and len = 3]
  by (simp add: run_defs Let_def word_sless_alt word_sle_eq)


subsection \<open>Persisting a block\<close>

lemma sync_live:
  assumes "isValid st" and "\<not> mReadOnly st"
    and "mLength (file_heap st block) \<noteq> BLOCK_LENGTH_INVALID" and "mLength (file_heap st block) \<noteq> 0"
  shows "sync cfg block remove st =
     (let seek_pos0 = mIndexLocation (file_heap st block);
          holes = mIndexHoles st;
          set_index_to_end = (- 1 = seek_pos0 \<and> holes = []);
          seek_pos1 = (if - 1 = seek_pos0 \<and> holes \<noteq> [] then hd holes else seek_pos0);
          holes1 = (if - 1 = seek_pos0 \<and> holes \<noteq> [] then tl holes else holes);
          fp1 = (if set_index_to_end then fseek_END (mIndexFP st) else mIndexFP st);
          seek_pos = (if set_index_to_end then of_nat (ftell fp1) else seek_pos1);
          st1 = upd_file block (\<lambda>b. b\<lparr>mIndexLocation := seek_pos\<rparr>) st;
          holes2 = (if remove then holes1 @ [seek_pos] else holes1);
          buffer = (if remove then replicate SERIAL_SIZE 0
                    else serialize (LL_LITTLE_ENDIAN cfg) (file_heap st1 block));
          fp2 = (if \<not> set_index_to_end then fseek_SET (sint seek_pos) fp1 else fp1)
      in Inr (st1\<lparr>mIndexHoles := holes2, mIndexFP := fwrite buffer fp2\<rparr>))"
  using assms unfolding sync_def by (simp only: if_False if_True simp_thms)

lemma serialize_nonempty [simp]: "serialize le b \<noteq> []"
  by (simp add: serialize_layout le32_def)

lemma SERIAL_SIZE_nonzero [simp]: "SERIAL_SIZE \<noteq> 0"
  by (simp add: SERIAL_SIZE_def)

lemma fwrite_at: "bs \<noteq> [] \<Longrightarrow> fwrite bs f = index_write (fpos f) bs (fbytes f)"
  by (cases f) (simp add: fwrite_def index_write_def Let_def)

lemma fseek_SET_at [simp]:
  "0 \<le> off \<Longrightarrow> fpos (fseek_SET off f) = nat off"
  "fbytes (fseek_SET off f) = fbytes f"
  by (simp_all add: fseek_SET_def)

lemma fseek_END_at [simp]:
  "fpos (fseek_END f) = length (fbytes f)"
  "fbytes (fseek_END f) = fbytes f"
  by (simp_all add: fseek_END_def)

lemma sync_in_place:
  assumes "isValid st" and "\<not> mReadOnly st"
    and "mLength (file_heap st block) \<noteq> BLOCK_LENGTH_INVALID" and "mLength (file_heap st block) \<noteq> 0"
    and "mIndexLocation (file_heap st block) \<noteq> - 1"
    and "0 \<le> sint (mIndexLocation (file_heap st block))"
  shows "sync cfg block remove st =
     Inr (st\<lparr>mIndexHoles := mIndexHoles st @ (if remove then [mIndexLocation (file_heap st block)] else []),
             mIndexFP := index_write (nat (sint (mIndexLocation (file_heap st block))))
                           (index_record cfg remove (file_heap st block)) (fbytes (mIndexFP st))\<rparr>)"
proof -
  have neq: "- 1 \<noteq> mIndexLocation (file_heap st block)"
    using assms(5) by auto
  have same: "upd_file block (\<lambda>b. b\<lparr>mIndexLocation := mIndexLocation (file_heap st block)\<rparr>) st = st"
    by (simp add: upd_file_def)
  show ?thesis
    unfolding sync_live [OF assms(1-4)] Let_def
    using neq assms(6)
    by (cases remove)
      (simp_all add: same fwrite_at index_record_def)
qed


lemma sync_hole:
  assumes "isValid st" and "\<not> mReadOnly st"
    and "mLength (file_heap st block) \<noteq> BLOCK_LENGTH_INVALID" and "mLength (file_heap st block) \<noteq> 0"
    and "mIndexLocation (file_heap st block) = - 1"
    and "mIndexHoles st = hole # holes"
    and "0 \<le> sint hole"
  shows "sync cfg block remove st =
     Inr (st\<lparr>file_heap := (file_heap st)(block := (file_heap st block)\<lparr>mIndexLocation := hole\<rparr>),
             mIndexHoles := holes @ (if remove then [hole] else []),
             mIndexFP := index_write (nat (sint hole))
                           (index_record cfg remove ((file_heap st block)\<lparr>mIndexLocation := hole\<rparr>))
                           (fbytes (mIndexFP st))\<rparr>)"
  unfolding sync_live [OF assms(1-4)] Let_def
  using assms(5-7)
  by (cases remove) (simp_all add: upd_file_def fwrite_at index_record_def)

lemma sync_append:
  assumes "isValid st" and "\<not> mReadOnly st"
    and "mLength (file_heap st block) \<noteq> BLOCK_LENGTH_INVALID" and "mLength (file_heap st block) \<noteq> 0"
    and "mIndexLocation (file_heap st block) = - 1"
    and "mIndexHoles st = []"
  shows "sync cfg block remove st =
     Inr (st\<lparr>file_heap := (file_heap st)(block := (file_heap st block)
                            \<lparr>mIndexLocation := of_nat (length (fbytes (mIndexFP st)))\<rparr>),
             mIndexHoles := (if remove then [of_nat (length (fbytes (mIndexFP st)))] else []),
             mIndexFP := index_write (length (fbytes (mIndexFP st)))
                           (index_record cfg remove ((file_heap st block)
                              \<lparr>mIndexLocation := of_nat (length (fbytes (mIndexFP st)))\<rparr>))
                           (fbytes (mIndexFP st))\<rparr>)"
  unfolding sync_live [OF assms(1-4)] Let_def
  using assms(5-6)
  by (cases remove) (simp_all add: upd_file_def fwrite_at index_record_def ftell_def)

lemma sync_dummy:
  assumes "isValid st" and "mLength (file_heap st block) = BLOCK_LENGTH_INVALID"
  shows "sync cfg block remove st = Inr st"
  using assms by (simp add: sync_def)


text \<open>
  Claim C6. On a valid VFS open for writing, \<^verbatim>\<open>sync\<close> writes nothing for a dummy record (a
  block of the invalid length). For any other block of a length that is not zero: a block
  with an index location is written there, in place; one without takes the front of
  \<^verbatim>\<open>mIndexHoles\<close> when there is one, and otherwise the end of the index file, which becomes
  its index location. With \<^verbatim>\<open>remove\<close> the bytes written are 34 zero bytes and the slot
  is pushed onto \<^verbatim>\<open>mIndexHoles\<close>; without, the bytes are the block's record.
\<close>

theorem sync_slot_allocation:
  assumes "isValid st" and "\<not> mReadOnly st"
  shows
    "(mLength (file_heap st block) = BLOCK_LENGTH_INVALID \<longrightarrow> sync cfg block remove st = Inr st) \<and>
     (mLength (file_heap st block) \<noteq> BLOCK_LENGTH_INVALID \<and> mLength (file_heap st block) \<noteq> 0 \<and>
      mIndexLocation (file_heap st block) \<noteq> - 1 \<and> 0 \<le> sint (mIndexLocation (file_heap st block)) \<longrightarrow>
        sync cfg block remove st =
          Inr (st\<lparr>mIndexHoles := mIndexHoles st @ (if remove then [mIndexLocation (file_heap st block)] else []),
                  mIndexFP := index_write (nat (sint (mIndexLocation (file_heap st block))))
                                (index_record cfg remove (file_heap st block)) (fbytes (mIndexFP st))\<rparr>)) \<and>
     (mLength (file_heap st block) \<noteq> BLOCK_LENGTH_INVALID \<and> mLength (file_heap st block) \<noteq> 0 \<and>
      mIndexLocation (file_heap st block) = - 1 \<and> mIndexHoles st \<noteq> [] \<and> 0 \<le> sint (hd (mIndexHoles st)) \<longrightarrow>
        sync cfg block remove st =
          Inr (st\<lparr>file_heap := (file_heap st)(block := (file_heap st block)\<lparr>mIndexLocation := hd (mIndexHoles st)\<rparr>),
                  mIndexHoles := tl (mIndexHoles st) @ (if remove then [hd (mIndexHoles st)] else []),
                  mIndexFP := index_write (nat (sint (hd (mIndexHoles st))))
                                (index_record cfg remove ((file_heap st block)\<lparr>mIndexLocation := hd (mIndexHoles st)\<rparr>))
                                (fbytes (mIndexFP st))\<rparr>)) \<and>
     (mLength (file_heap st block) \<noteq> BLOCK_LENGTH_INVALID \<and> mLength (file_heap st block) \<noteq> 0 \<and>
      mIndexLocation (file_heap st block) = - 1 \<and> mIndexHoles st = [] \<longrightarrow>
        sync cfg block remove st =
          Inr (st\<lparr>file_heap := (file_heap st)(block := (file_heap st block)
                                 \<lparr>mIndexLocation := of_nat (length (fbytes (mIndexFP st)))\<rparr>),
                  mIndexHoles := (if remove then [of_nat (length (fbytes (mIndexFP st)))] else []),
                  mIndexFP := index_write (length (fbytes (mIndexFP st)))
                                (index_record cfg remove ((file_heap st block)
                                   \<lparr>mIndexLocation := of_nat (length (fbytes (mIndexFP st)))\<rparr>))
                                (fbytes (mIndexFP st))\<rparr>))"
proof (intro conjI impI)
  assume "mLength (file_heap st block) = BLOCK_LENGTH_INVALID"
  with assms(1) show "sync cfg block remove st = Inr st"
    by (rule sync_dummy)
next
  assume "mLength (file_heap st block) \<noteq> BLOCK_LENGTH_INVALID \<and> mLength (file_heap st block) \<noteq> 0 \<and>
      mIndexLocation (file_heap st block) \<noteq> - 1 \<and> 0 \<le> sint (mIndexLocation (file_heap st block))"
  then show "sync cfg block remove st =
          Inr (st\<lparr>mIndexHoles := mIndexHoles st @ (if remove then [mIndexLocation (file_heap st block)] else []),
                  mIndexFP := index_write (nat (sint (mIndexLocation (file_heap st block))))
                                (index_record cfg remove (file_heap st block)) (fbytes (mIndexFP st))\<rparr>)"
    using sync_in_place [OF assms] by blast
next
  assume a: "mLength (file_heap st block) \<noteq> BLOCK_LENGTH_INVALID \<and> mLength (file_heap st block) \<noteq> 0 \<and>
      mIndexLocation (file_heap st block) = - 1 \<and> mIndexHoles st \<noteq> [] \<and> 0 \<le> sint (hd (mIndexHoles st))"
  then have "mIndexHoles st = hd (mIndexHoles st) # tl (mIndexHoles st)"
    by simp
  with a show "sync cfg block remove st =
          Inr (st\<lparr>file_heap := (file_heap st)(block := (file_heap st block)\<lparr>mIndexLocation := hd (mIndexHoles st)\<rparr>),
                  mIndexHoles := tl (mIndexHoles st) @ (if remove then [hd (mIndexHoles st)] else []),
                  mIndexFP := index_write (nat (sint (hd (mIndexHoles st))))
                                (index_record cfg remove ((file_heap st block)\<lparr>mIndexLocation := hd (mIndexHoles st)\<rparr>))
                                (fbytes (mIndexFP st))\<rparr>)"
    using sync_hole [OF assms, of block "hd (mIndexHoles st)" "tl (mIndexHoles st)"] by blast
next
  assume "mLength (file_heap st block) \<noteq> BLOCK_LENGTH_INVALID \<and> mLength (file_heap st block) \<noteq> 0 \<and>
      mIndexLocation (file_heap st block) = - 1 \<and> mIndexHoles st = []"
  then show "sync cfg block remove st =
          Inr (st\<lparr>file_heap := (file_heap st)(block := (file_heap st block)
                                 \<lparr>mIndexLocation := of_nat (length (fbytes (mIndexFP st)))\<rparr>),
                  mIndexHoles := (if remove then [of_nat (length (fbytes (mIndexFP st)))] else []),
                  mIndexFP := index_write (length (fbytes (mIndexFP st)))
                                (index_record cfg remove ((file_heap st block)
                                   \<lparr>mIndexLocation := of_nat (length (fbytes (mIndexFP st)))\<rparr>))
                                (fbytes (mIndexFP st))\<rparr>)"
    using sync_append [OF assms] by blast
qed

lemmas example_defs = example_vfs_def example_block_def blank_LLVFS_def isValid_def
  BLOCK_LENGTH_INVALID_def spec_of_def

theorem sync_slot_allocation_witness:
  "(let st = example_vfs (- 1) [34, 0]
    in isValid st \<and> \<not> mReadOnly st \<and> mLength (file_heap st 0) = 8192 \<and>
       mIndexLocation (file_heap st 0) = - 1 \<and> hd (mIndexHoles st) = 34 \<and>
       map_sum id (\<lambda>st'. (mIndexLocation (file_heap st' 0), mIndexHoles st', length (fbytes (mIndexFP st'))))
         (sync \<lparr>LL_LITTLE_ENDIAN = True, LL_DEBUG = True\<rparr> 0 False st) = Inr (34, [0], 68)) \<and>
   (let st = example_vfs (- 1) []
    in mIndexHoles st = [] \<and>
       map_sum id (\<lambda>st'. (mIndexLocation (file_heap st' 0), mIndexHoles st', length (fbytes (mIndexFP st'))))
         (sync \<lparr>LL_LITTLE_ENDIAN = True, LL_DEBUG = True\<rparr> 0 False st) = Inr (68, [], 102)) \<and>
   (let st = example_vfs 34 [0]
    in mIndexLocation (file_heap st 0) = 34 \<and>
       map_sum id (\<lambda>st'. (mIndexLocation (file_heap st' 0), mIndexHoles st', take 34 (drop 34 (fbytes (mIndexFP st')))))
         (sync \<lparr>LL_LITTLE_ENDIAN = True, LL_DEBUG = True\<rparr> 0 True st) = Inr (34, [0, 34], replicate 34 0)) \<and>
   (let st = (example_vfs 34 [0])\<lparr>file_heap := (\<lambda>_. example_block\<lparr>mLength := - 1\<rparr>)\<rparr>
    in mLength (file_heap st 0) = BLOCK_LENGTH_INVALID \<and>
       sync \<lparr>LL_LITTLE_ENDIAN = True, LL_DEBUG = True\<rparr> 0 True st = Inr st)"
  using
    sync_slot_allocation [where st = "example_vfs (- 1) [34, 0]" and block = 0 and remove = False
      and cfg = "\<lparr>LL_LITTLE_ENDIAN = True, LL_DEBUG = True\<rparr>"]
    sync_slot_allocation [where st = "example_vfs (- 1) []" and block = 0 and remove = False
      and cfg = "\<lparr>LL_LITTLE_ENDIAN = True, LL_DEBUG = True\<rparr>"]
    sync_slot_allocation [where st = "example_vfs 34 [0]" and block = 0 and remove = True
      and cfg = "\<lparr>LL_LITTLE_ENDIAN = True, LL_DEBUG = True\<rparr>"]
    sync_slot_allocation [where st = "(example_vfs 34 [0])\<lparr>file_heap := (\<lambda>_. example_block\<lparr>mLength := - 1\<rparr>)\<rparr>"
      and block = 0 and remove = True and cfg = "\<lparr>LL_LITTLE_ENDIAN = True, LL_DEBUG = True\<rparr>"]
  by (simp add: example_defs Let_def index_write_def index_record_def SERIAL_SIZE_def serialize_layout)

subsection \<open>The replay of the index\<close>

lemma deserialize_layout:
  assumes "length file_id = 16"
  shows "deserialize le (le32 loc @ le32 len @ le32 atime @ file_id @ le16 ty @ le32 sz @ rest) index_loc b =
           b\<lparr>mIndexLocation := index_loc, mLocation := loc, mLength := len, mAccessTime := atime,
             mFileID := file_id, mFileType := scast ty, mSize := sz\<rparr>"
proof -
  let ?s = "le32 loc @ le32 len @ le32 atime @ file_id @ le16 ty @ le32 sz @ rest"
  have d: "drop 4 ?s = le32 len @ le32 atime @ file_id @ le16 ty @ le32 sz @ rest"
    "drop 8 ?s = le32 atime @ file_id @ le16 ty @ le32 sz @ rest"
    "drop 12 ?s = file_id @ le16 ty @ le32 sz @ rest"
    "drop 28 ?s = le16 ty @ le32 sz @ rest"
    "drop 30 ?s = le32 sz @ rest"
    using assms by simp_all
  have h: "host_word32 le (swizzleCopy le 4 ?s) = loc"
    by (rule swizzleCopy_in32)
  show ?thesis
    unfolding deserialize_def Let_def d h
    using assms by (simp add: swizzleCopy_in32 swizzleCopy_in16)
qed

lemma deserialize_example_record:
  "deserialize le (example_record loc len sz) index_loc b =
     b\<lparr>mIndexLocation := index_loc, mLocation := loc, mLength := len, mAccessTime := 7,
       mFileID := replicate 16 1, mFileType := 0, mSize := sz\<rparr>"
proof -
  have "example_record loc len sz = le32 loc @ le32 len @ le32 7 @ replicate 16 1 @ le16 0 @ le32 sz @ []"
    by (simp add: example_record_def)
  then show ?thesis
    by (simp only: deserialize_layout [OF length_replicate]) simp
qed

lemma example_record_Cons:
  "hd (example_record loc len sz) # tl (example_record loc len sz) = example_record loc len sz"
  by (simp add: example_record_def le32_def)

lemmas open_defs = LLVFS_open_def blank_LLVFS_def new_file_block_def new_LLVFSFileBlock_def
  new_LLVFSBlock_def classify_def block_sane_def addFreeBlock_def lower_bound_def upper_bound_def
  multimap_insert_def insert_at_def multimap_count_def then_do_def SERIAL_SIZE_def

lemma record_verdict_shift:
  "record_verdict cfg AT_NONE AT_COUNT now data_size (off + SERIAL_SIZE) (drop SERIAL_SIZE buffer) i =
   record_verdict cfg AT_NONE AT_COUNT now data_size off buffer (Suc i)"
proof -
  have a: "off + SERIAL_SIZE + SERIAL_SIZE * i = off + SERIAL_SIZE * Suc i"
    by simp
  have b: "drop (SERIAL_SIZE * i) (drop SERIAL_SIZE buffer) = drop (SERIAL_SIZE * Suc i) buffer"
    by (simp add: add.commute)
  show ?thesis
    unfolding record_verdict_def a b ..
qed

lemma hole_offsets_0 [simp]: "hole_offsets cfg AT_NONE AT_COUNT now data_size off buffer 0 = []"
  by (simp add: hole_offsets_def)

lemma hole_offsets_Suc:
  "hole_offsets cfg AT_NONE AT_COUNT now data_size off buffer (Suc n) =
     (if record_verdict cfg AT_NONE AT_COUNT now data_size off buffer 0 = Hole then [of_nat off] else []) @
     hole_offsets cfg AT_NONE AT_COUNT now data_size (off + SERIAL_SIZE) (drop SERIAL_SIZE buffer) n"
proof -
  have upt: "[0..<Suc n] = 0 # map Suc [0..<n]"
    by (simp add: upt_conv_Cons map_Suc_upt del: upt_Suc)
  show ?thesis
    unfolding hole_offsets_def upt
    by (simp add: filter_map comp_def record_verdict_shift [symmetric] del: mult_Suc_right)
      (simp add: algebra_simps)
qed

lemma parse_index_step:
  assumes "SERIAL_SIZE \<le> length buffer"
  shows "parse_index cfg AT_NONE AT_COUNT now data_size off buffer files_by_loc st =
     (let b = deserialize (LL_LITTLE_ENDIAN cfg) buffer (of_nat off)
                (new_LLVFSFileBlock now (replicate 16 0) AT_NONE 0 0);
          st1 = st\<lparr>file_heap := (file_heap st)(next_addr st := b), next_addr := Suc (next_addr st)\<rparr>
      in case record_verdict cfg AT_NONE AT_COUNT now data_size off buffer 0 of
           Keep \<Rightarrow>
             parse_index cfg AT_NONE AT_COUNT now data_size (off + SERIAL_SIZE) (drop SERIAL_SIZE buffer)
               (addDataSorted (file_heap st1) (next_addr st) files_by_loc)
               (st1\<lparr>mFileBlocks := map_insert (spec_of b) (next_addr st) (mFileBlocks st1)\<rparr>)
         | Corrupt \<Rightarrow> Inr (GaveUp st1)
         | Hole \<Rightarrow>
             parse_index cfg AT_NONE AT_COUNT now data_size (off + SERIAL_SIZE) (drop SERIAL_SIZE buffer)
               files_by_loc (st1\<lparr>mIndexHoles := mIndexHoles st @ [of_nat off]\<rparr>))"
proof -
  from assms obtain x xs where buffer: "buffer = x # xs"
    by (cases buffer) (simp_all add: SERIAL_SIZE_def)
  from assms have not: "\<not> length (x # xs) < SERIAL_SIZE"
    unfolding buffer by simp
  show ?thesis
    unfolding buffer parse_index.simps
    using not by (simp add: new_file_block_def record_verdict_def Let_def cong: verdict.case_cong)
qed


lemma parse_index_gives_up:
  assumes "SERIAL_SIZE * Suc k \<le> length buffer"
    and "record_verdict cfg AT_NONE AT_COUNT now data_size off buffer k = Corrupt"
    and "\<forall>i<k. record_verdict cfg AT_NONE AT_COUNT now data_size off buffer i \<noteq> Corrupt"
  shows "\<exists>st'. parse_index cfg AT_NONE AT_COUNT now data_size off buffer files_by_loc st = Inr (GaveUp st') \<and>
           mIndexHoles st' = mIndexHoles st @ hole_offsets cfg AT_NONE AT_COUNT now data_size off buffer k"
  using assms
proof (induction k arbitrary: off buffer files_by_loc st)
  case 0
  then have len: "SERIAL_SIZE \<le> length buffer"
    by simp
  show ?case
    unfolding parse_index_step [OF len] Let_def using 0(2) by simp
next
  case (Suc k)
  from Suc.prems(1) have len: "SERIAL_SIZE \<le> length buffer"
    by simp
  from Suc.prems(1) have len': "SERIAL_SIZE * Suc k \<le> length (drop SERIAL_SIZE buffer)"
    by simp
  have c': "record_verdict cfg AT_NONE AT_COUNT now data_size (off + SERIAL_SIZE) (drop SERIAL_SIZE buffer) k = Corrupt"
    unfolding record_verdict_shift by (rule Suc.prems(2))
  have n': "\<forall>i<k. record_verdict cfg AT_NONE AT_COUNT now data_size (off + SERIAL_SIZE) (drop SERIAL_SIZE buffer) i \<noteq> Corrupt"
    unfolding record_verdict_shift using Suc.prems(3) by simp
  from Suc.prems(3) have v0: "record_verdict cfg AT_NONE AT_COUNT now data_size off buffer 0 \<noteq> Corrupt"
    by simp
  note IH = Suc.IH [OF len' c' n']
  show ?case
  proof (cases "record_verdict cfg AT_NONE AT_COUNT now data_size off buffer 0")
    case Keep
    show ?thesis
      unfolding parse_index_step [OF len] Let_def Keep verdict.case hole_offsets_Suc
      using IH [where st = "st\<lparr>file_heap := (file_heap st)(next_addr st :=
                deserialize (LL_LITTLE_ENDIAN cfg) buffer (of_nat off)
                  (new_LLVFSFileBlock now (replicate 16 0) AT_NONE 0 0)),
              next_addr := Suc (next_addr st),
              mFileBlocks := map_insert (spec_of (deserialize (LL_LITTLE_ENDIAN cfg) buffer (of_nat off)
                  (new_LLVFSFileBlock now (replicate 16 0) AT_NONE 0 0))) (next_addr st) (mFileBlocks st)\<rparr>"]
      by simp
  next
    case Corrupt
    with v0 show ?thesis
      by simp
  next
    case Hole
    show ?thesis
      unfolding parse_index_step [OF len] Let_def Hole verdict.case hole_offsets_Suc
      using IH [where st = "st\<lparr>file_heap := (file_heap st)(next_addr st :=
                deserialize (LL_LITTLE_ENDIAN cfg) buffer (of_nat off)
                  (new_LLVFSFileBlock now (replicate 16 0) AT_NONE 0 0)),
              next_addr := Suc (next_addr st),
              mIndexHoles := mIndexHoles st @ [of_nat off]\<rparr>"]
      by simp
  qed
qed

lemma parse_index_finishes:
  assumes "length buffer = SERIAL_SIZE * n"
    and "\<forall>i<n. record_verdict cfg AT_NONE AT_COUNT now data_size off buffer i \<noteq> Corrupt"
  shows "\<exists>files st'. parse_index cfg AT_NONE AT_COUNT now data_size off buffer files_by_loc st =
             Inr (Finished files st') \<and>
           mIndexHoles st' = mIndexHoles st @ hole_offsets cfg AT_NONE AT_COUNT now data_size off buffer n"
  using assms
proof (induction n arbitrary: off buffer files_by_loc st)
  case 0
  then show ?case
    by simp
next
  case (Suc n)
  from Suc.prems(1) have len: "SERIAL_SIZE \<le> length buffer"
    by simp
  from Suc.prems(1) have len': "length (drop SERIAL_SIZE buffer) = SERIAL_SIZE * n"
    by simp
  have n': "\<forall>i<n. record_verdict cfg AT_NONE AT_COUNT now data_size (off + SERIAL_SIZE) (drop SERIAL_SIZE buffer) i \<noteq> Corrupt"
    unfolding record_verdict_shift using Suc.prems(2) by simp
  from Suc.prems(2) have v0: "record_verdict cfg AT_NONE AT_COUNT now data_size off buffer 0 \<noteq> Corrupt"
    by simp
  note IH = Suc.IH [OF len' n']
  show ?case
  proof (cases "record_verdict cfg AT_NONE AT_COUNT now data_size off buffer 0")
    case Keep
    show ?thesis
      unfolding parse_index_step [OF len] Let_def Keep verdict.case hole_offsets_Suc
      using IH [where st = "st\<lparr>file_heap := (file_heap st)(next_addr st :=
                deserialize (LL_LITTLE_ENDIAN cfg) buffer (of_nat off)
                  (new_LLVFSFileBlock now (replicate 16 0) AT_NONE 0 0)),
              next_addr := Suc (next_addr st),
              mFileBlocks := map_insert (spec_of (deserialize (LL_LITTLE_ENDIAN cfg) buffer (of_nat off)
                  (new_LLVFSFileBlock now (replicate 16 0) AT_NONE 0 0))) (next_addr st) (mFileBlocks st)\<rparr>"]
      by simp
  next
    case Corrupt
    with v0 show ?thesis
      by simp
  next
    case Hole
    show ?thesis
      unfolding parse_index_step [OF len] Let_def Hole verdict.case hole_offsets_Suc
      using IH [where st = "st\<lparr>file_heap := (file_heap st)(next_addr st :=
                deserialize (LL_LITTLE_ENDIAN cfg) buffer (of_nat off)
                  (new_LLVFSFileBlock now (replicate 16 0) AT_NONE 0 0)),
              next_addr := Suc (next_addr st),
              mIndexHoles := mIndexHoles st @ [of_nat off]\<rparr>"]
      by simp
  qed
qed

lemma deserialize_example_record_app:
  "deserialize le (example_record loc len sz @ rest) index_loc b =
     b\<lparr>mIndexLocation := index_loc, mLocation := loc, mLength := len, mAccessTime := 7,
       mFileID := replicate 16 1, mFileType := 0, mSize := sz\<rparr>"
proof -
  have "example_record loc len sz @ rest =
      le32 loc @ le32 len @ le32 7 @ replicate 16 1 @ le16 0 @ le32 sz @ rest"
    by (simp add: example_record_def)
  then show ?thesis
    by (simp only: deserialize_layout [OF length_replicate]) simp
qed

lemma length_example_record [simp]: "length (example_record loc len sz) = 34"
  by (simp add: example_record_def le32_def le16_def)

lemma record_verdict_example_0:
  "record_verdict cfg AT_NONE AT_COUNT now data_size 0 (example_record loc len sz @ rest) 0 =
     classify AT_NONE AT_COUNT data_size
       ((new_LLVFSFileBlock now (replicate 16 0) AT_NONE 0 0)
          \<lparr>mIndexLocation := 0, mLocation := loc, mLength := len, mAccessTime := 7,
           mFileID := replicate 16 1, mFileType := 0, mSize := sz\<rparr>)"
  by (simp add: record_verdict_def deserialize_example_record_app)

lemma record_verdict_example_1:
  "record_verdict cfg AT_NONE AT_COUNT now data_size 0
     (example_record loc0 len0 sz0 @ example_record loc len sz @ rest) (Suc 0) =
     classify AT_NONE AT_COUNT data_size
       ((new_LLVFSFileBlock now (replicate 16 0) AT_NONE 0 0)
          \<lparr>mIndexLocation := 34, mLocation := loc, mLength := len, mAccessTime := 7,
           mFileID := replicate 16 1, mFileType := 0, mSize := sz\<rparr>)"
  by (simp add: record_verdict_def deserialize_example_record_app SERIAL_SIZE_def)

text \<open>
  Claim C2, as amended. A record that fails the sanity check is a hole exactly when its
  length is 0 or its size is not positive, and corrupt when its length is not 0 and its
  size is positive. For an index file of \<open>n\<close> whole records: the first corrupt record,
  wherever it stands among kept records and holes, ends the replay, and the constructor
  then removes both files and is \<^verbatim>\<open>VFSVALID_BAD_CORRUPT\<close>, with the holes before that record
  on \<^verbatim>\<open>mIndexHoles\<close>; without a corrupt record the replay runs to its end, \<^verbatim>\<open>mIndexHoles\<close> is
  then the list of the offsets of the holes, in the order of the file, and the constructor
  goes on with the search for the free blocks.
\<close>

theorem index_record_verdict:
  assumes "length index = SERIAL_SIZE * n" and "0 < n"
  shows "(\<not> block_sane AT_NONE AT_COUNT data_size block \<longrightarrow>
            classify AT_NONE AT_COUNT data_size block =
              (if mLength block = 0 \<or> \<not> 0 <s mSize block then Hole else Corrupt)) \<and>
         (\<forall>k<n. record_verdict cfg AT_NONE AT_COUNT now (of_nat (length data)) 0 index k = Corrupt \<and>
                 (\<forall>i<k. record_verdict cfg AT_NONE AT_COUNT now (of_nat (length data)) 0 index i \<noteq> Corrupt) \<longrightarrow>
            (\<exists>st'. LLVFS_open cfg AT_NONE AT_COUNT now read_only data (Some index) =
                     Inr \<lparr>vfs = st'\<lparr>mValid := VFSVALID_BAD_CORRUPT\<rparr>,
                          index_removed = True, data_removed = True\<rparr> \<and>
                   mIndexHoles st' = hole_offsets cfg AT_NONE AT_COUNT now (of_nat (length data)) 0 index k)) \<and>
         ((\<exists>k<n. record_verdict cfg AT_NONE AT_COUNT now (of_nat (length data)) 0 index k = Corrupt) \<longrightarrow>
            (\<exists>st'. LLVFS_open cfg AT_NONE AT_COUNT now read_only data (Some index) =
                     Inr \<lparr>vfs = st'\<lparr>mValid := VFSVALID_BAD_CORRUPT\<rparr>,
                          index_removed = True, data_removed = True\<rparr>)) \<and>
         ((\<forall>i<n. record_verdict cfg AT_NONE AT_COUNT now (of_nat (length data)) 0 index i \<noteq> Corrupt) \<longrightarrow>
            (\<exists>files st'.
               parse_index cfg AT_NONE AT_COUNT now (of_nat (length data)) 0 index []
                 (blank_LLVFS read_only data index) = Inr (Finished files st') \<and>
               mIndexHoles st' = hole_offsets cfg AT_NONE AT_COUNT now (of_nat (length data)) 0 index n \<and>
               LLVFS_open cfg AT_NONE AT_COUNT now read_only data (Some index) =
                 open_sweep cfg (of_nat (length data)) files st'))"
proof -
  let ?rv = "record_verdict cfg AT_NONE AT_COUNT now (of_nat (length data)) 0 index"
  let ?st = "blank_LLVFS read_only data index"
  let ?parse = "parse_index cfg AT_NONE AT_COUNT now (of_nat (length data)) 0 index [] ?st"
  let ?bad = "\<lambda>st'. Inr \<lparr>vfs = st'\<lparr>mValid := VFSVALID_BAD_CORRUPT\<rparr>,
                          index_removed = True, data_removed = True\<rparr> :: fatal + opened"
  from assms have len: "SERIAL_SIZE \<le> length index"
    by simp
  have "open": "LLVFS_open cfg AT_NONE AT_COUNT now read_only data (Some index) =
      then_do ?parse (\<lambda>parsed.
        case parsed of
          GaveUp st1 \<Rightarrow> Inr (bad_corrupt st1)
        | Finished files_by_loc st1 \<Rightarrow> open_sweep cfg (of_nat (length data)) files_by_loc st1)"
    using len by (simp add: LLVFS_open_def Let_def)
  have holes0: "mIndexHoles ?st = []"
    by (simp add: blank_LLVFS_def)
  have first: "\<exists>st'. LLVFS_open cfg AT_NONE AT_COUNT now read_only data (Some index) = ?bad st' \<and>
        mIndexHoles st' = hole_offsets cfg AT_NONE AT_COUNT now (of_nat (length data)) 0 index k"
    if k: "k < n" and c: "?rv k = Corrupt" and b: "\<forall>i<k. ?rv i \<noteq> Corrupt" for k
  proof -
    from k have "SERIAL_SIZE * Suc k \<le> SERIAL_SIZE * n"
      by (intro mult_le_mono2) simp
    then have "SERIAL_SIZE * Suc k \<le> length index"
      using assms(1) by simp
    from parse_index_gives_up [OF this c b, of "[]" ?st]
    obtain st' where p: "?parse = Inr (GaveUp st')"
      and h: "mIndexHoles st' = mIndexHoles ?st @ hole_offsets cfg AT_NONE AT_COUNT now (of_nat (length data)) 0 index k"
      by blast
    have "LLVFS_open cfg AT_NONE AT_COUNT now read_only data (Some index) = ?bad st'"
      unfolding "open" p by (simp add: then_do_def bad_corrupt_def)
    moreover have "mIndexHoles st' = hole_offsets cfg AT_NONE AT_COUNT now (of_nat (length data)) 0 index k"
      using h holes0 by simp
    ultimately show ?thesis
      by blast
  qed
  have some: "\<exists>st'. LLVFS_open cfg AT_NONE AT_COUNT now read_only data (Some index) = ?bad st'"
    if "\<exists>k<n. ?rv k = Corrupt"
  proof -
    from that obtain k where "k < n \<and> ?rv k = Corrupt"
      by blast
    then obtain k where "k < n \<and> ?rv k = Corrupt" and least: "\<forall>i<k. \<not> (i < n \<and> ?rv i = Corrupt)"
      using exists_least_iff [of "\<lambda>k. k < n \<and> ?rv k = Corrupt"] by blast
    then have k: "k < n" and c: "?rv k = Corrupt" and "\<forall>i<k. ?rv i \<noteq> Corrupt"
      by auto
    from first [OF this] show ?thesis
      by blast
  qed
  have none: "\<exists>files st'. ?parse = Inr (Finished files st') \<and>
        mIndexHoles st' = hole_offsets cfg AT_NONE AT_COUNT now (of_nat (length data)) 0 index n \<and>
        LLVFS_open cfg AT_NONE AT_COUNT now read_only data (Some index) =
          open_sweep cfg (of_nat (length data)) files st'"
    if b: "\<forall>i<n. ?rv i \<noteq> Corrupt"
  proof -
    from parse_index_finishes [OF assms(1) b, of "[]" ?st]
    obtain files st' where p: "?parse = Inr (Finished files st')"
      and h: "mIndexHoles st' = mIndexHoles ?st @ hole_offsets cfg AT_NONE AT_COUNT now (of_nat (length data)) 0 index n"
      by blast
    have "LLVFS_open cfg AT_NONE AT_COUNT now read_only data (Some index) =
        open_sweep cfg (of_nat (length data)) files st'"
      unfolding "open" p by (simp add: then_do_def)
    moreover have "mIndexHoles st' = hole_offsets cfg AT_NONE AT_COUNT now (of_nat (length data)) 0 index n"
      using h holes0 by simp
    ultimately show ?thesis
      using p by blast
  qed
  have cls: "classify AT_NONE AT_COUNT data_size block =
      (if mLength block = 0 \<or> \<not> 0 <s mSize block then Hole else Corrupt)"
    if "\<not> block_sane AT_NONE AT_COUNT data_size block"
    using that by (simp add: classify_def)
  from cls first some none show ?thesis
    by blast
qed

theorem index_record_verdict_witness:
  "record_verdict \<lparr>LL_LITTLE_ENDIAN = True, LL_DEBUG = True\<rparr> (- 1) 23 5 4096 0
     (example_record 0 1024 5 @ example_record 9999 1024 5) 0 = Keep \<and>
   record_verdict \<lparr>LL_LITTLE_ENDIAN = True, LL_DEBUG = True\<rparr> (- 1) 23 5 4096 0
     (example_record 0 1024 5 @ example_record 9999 1024 5) 1 = Corrupt \<and>
   (\<exists>st'. LLVFS_open \<lparr>LL_LITTLE_ENDIAN = True, LL_DEBUG = True\<rparr> (- 1) 23 5 False (replicate 4096 0)
            (Some (example_record 0 1024 5 @ example_record 9999 1024 5)) =
          Inr \<lparr>vfs = st'\<lparr>mValid := VFSVALID_BAD_CORRUPT\<rparr>, index_removed = True, data_removed = True\<rparr> \<and>
          mIndexHoles st' = []) \<and>
   record_verdict \<lparr>LL_LITTLE_ENDIAN = True, LL_DEBUG = True\<rparr> (- 1) 23 5 4096 0
     (example_record 0 1024 5 @ example_record 0 0 0) 1 = Hole \<and>
   (\<exists>files st'.
      parse_index \<lparr>LL_LITTLE_ENDIAN = True, LL_DEBUG = True\<rparr> (- 1) 23 5 4096 0
        (example_record 0 1024 5 @ example_record 0 0 0) []
        (blank_LLVFS False (replicate 4096 0) (example_record 0 1024 5 @ example_record 0 0 0)) =
        Inr (Finished files st') \<and>
      mIndexHoles st' = [34] \<and>
      LLVFS_open \<lparr>LL_LITTLE_ENDIAN = True, LL_DEBUG = True\<rparr> (- 1) 23 5 False (replicate 4096 0)
        (Some (example_record 0 1024 5 @ example_record 0 0 0)) =
        open_sweep \<lparr>LL_LITTLE_ENDIAN = True, LL_DEBUG = True\<rparr> 4096 files st')"
proof -
  let ?cfg = "\<lparr>LL_LITTLE_ENDIAN = True, LL_DEBUG = True\<rparr>"
  let ?bad = "example_record 0 1024 5 @ example_record 9999 1024 5"
  let ?ok = "example_record 0 1024 5 @ example_record 0 0 0"
  have one: "(1 :: nat) = Suc 0"
    by simp
  have data: "(of_nat (length (replicate 4096 (0 :: U8))) :: U32) = 4096"
    by simp
  have b0: "record_verdict ?cfg (- 1) 23 5 4096 0 ?bad 0 = Keep"
    by (simp add: record_verdict_example_0 classify_def block_sane_def new_LLVFSFileBlock_def
        word_sless_alt word_sle_eq)
  have b1: "record_verdict ?cfg (- 1) 23 5 4096 0 ?bad 1 = Corrupt"
    unfolding one
    by (simp add: record_verdict_example_1 [where rest = "[]", simplified] classify_def block_sane_def
        new_LLVFSFileBlock_def word_sless_alt word_sle_eq)
  have k0: "record_verdict ?cfg (- 1) 23 5 4096 0 ?ok 0 = Keep"
    by (simp add: record_verdict_example_0 classify_def block_sane_def new_LLVFSFileBlock_def
        word_sless_alt word_sle_eq)
  have k1: "record_verdict ?cfg (- 1) 23 5 4096 0 ?ok 1 = Hole"
    unfolding one
    by (simp add: record_verdict_example_1 [where rest = "[]", simplified] classify_def block_sane_def
        new_LLVFSFileBlock_def word_sless_alt word_sle_eq)
  have len_bad: "length ?bad = SERIAL_SIZE * 2" and len_ok: "length ?ok = SERIAL_SIZE * 2"
    by (simp_all add: SERIAL_SIZE_def)
  have first: "\<forall>i<1. record_verdict ?cfg (- 1) 23 5 4096 0 ?bad i \<noteq> Corrupt"
    using b0 by simp
  have none: "\<forall>i<2. record_verdict ?cfg (- 1) 23 5 4096 0 ?ok i \<noteq> Corrupt"
  proof (intro allI impI)
    fix i :: nat assume "i < 2"
    then have "i = 0 \<or> i = 1"
      by auto
    with k0 k1 show "record_verdict ?cfg (- 1) 23 5 4096 0 ?ok i \<noteq> Corrupt"
      by auto
  qed
  have h_bad: "hole_offsets ?cfg (- 1) 23 5 4096 0 ?bad 1 = []"
    using b0 by (simp add: hole_offsets_def)
  have two: "[0..<2] = [0, 1 :: nat]"
    by (simp add: upt_rec)
  have h_ok: "hole_offsets ?cfg (- 1) 23 5 4096 0 ?ok 2 = [34]"
    unfolding hole_offsets_def two using k0 k1 by (simp add: SERIAL_SIZE_def)
  note t = index_record_verdict [where cfg = ?cfg and AT_NONE = "- 1" and AT_COUNT = 23 and now = 5
      and data = "replicate 4096 0" and read_only = False, unfolded data]
  from t [OF len_bad, THEN conjunct2, THEN conjunct1, rule_format, of 1] b1 first h_bad
  have r1: "\<exists>st'. LLVFS_open ?cfg (- 1) 23 5 False (replicate 4096 0) (Some ?bad) =
          Inr \<lparr>vfs = st'\<lparr>mValid := VFSVALID_BAD_CORRUPT\<rparr>, index_removed = True, data_removed = True\<rparr> \<and>
          mIndexHoles st' = []"
    by simp
  from t [OF len_ok, THEN conjunct2, THEN conjunct2, THEN conjunct2, rule_format] none h_ok
  have r2: "\<exists>files st'.
      parse_index ?cfg (- 1) 23 5 4096 0 ?ok [] (blank_LLVFS False (replicate 4096 0) ?ok) =
        Inr (Finished files st') \<and>
      mIndexHoles st' = [34] \<and>
      LLVFS_open ?cfg (- 1) 23 5 False (replicate 4096 0) (Some ?ok) = open_sweep ?cfg 4096 files st'"
    by simp
  from b0 b1 r1 k1 r2 show ?thesis
    by blast
qed

text \<open>
  Claim C2 as stated fails: a record of length 1024 and size 0 fails the sanity check with a
  length that is not 0, and yet it is taken for a hole; the VFS opens, and no file is removed.
\<close>

theorem index_record_hole_counterexample:
  "mLength (deserialize True (example_record 0 1024 0) 0 (new_LLVFSFileBlock 5 (replicate 16 0) (- 1) 0 0)) = 1024 \<and>
   \<not> block_sane (- 1) 23 4096
       (deserialize True (example_record 0 1024 0) 0 (new_LLVFSFileBlock 5 (replicate 16 0) (- 1) 0 0)) \<and>
   map_sum id (\<lambda>r. (mValid (vfs r), mIndexHoles (vfs r), index_removed r, data_removed r))
     (LLVFS_open \<lparr>LL_LITTLE_ENDIAN = True, LL_DEBUG = True\<rparr> (- 1) 23 5 False (replicate 4096 0)
        (Some (example_record 0 1024 0))) =
     Inr (VFSVALID_OK, [0], False, False)"
proof -
  let ?cfg = "\<lparr>LL_LITTLE_ENDIAN = True, LL_DEBUG = True\<rparr>"
  let ?r = "example_record 0 1024 0"
  have d: "deserialize True ?r 0 b =
      b\<lparr>mIndexLocation := 0, mLocation := 0, mLength := 1024, mAccessTime := 7,
        mFileID := replicate 16 1, mFileType := 0, mSize := 0\<rparr>" for b
    using deserialize_example_record_app [where rest = "[]"] by simp
  have len: "SERIAL_SIZE \<le> length ?r"
    by (simp add: SERIAL_SIZE_def)
  have v: "record_verdict ?cfg (- 1) 23 5 4096 0 ?r 0 = Hole"
    using record_verdict_example_0 [where rest = "[]"]
    by (simp add: classify_def block_sane_def new_LLVFSFileBlock_def word_sless_alt word_sle_eq)
  have p: "parse_index ?cfg (- 1) 23 5 4096 0 ?r [] st =
      Inr (Finished [] (st\<lparr>file_heap := (file_heap st)(next_addr st :=
               deserialize True ?r 0 (new_LLVFSFileBlock 5 (replicate 16 0) (- 1) 0 0)),
              next_addr := Suc (next_addr st),
              mIndexHoles := mIndexHoles st @ [0]\<rparr>))" for st
    unfolding parse_index_step [OF len] Let_def v verdict.case
    by (simp add: SERIAL_SIZE_def)
  have bad: "\<not> block_sane (- 1) 23 4096 (deserialize True ?r 0 (new_LLVFSFileBlock 5 (replicate 16 0) (- 1) 0 0))"
    by (simp add: d block_sane_def)
  have "map_sum id (\<lambda>r. (mValid (vfs r), mIndexHoles (vfs r), index_removed r, data_removed r))
     (LLVFS_open ?cfg (- 1) 23 5 False (replicate 4096 0) (Some ?r)) = Inr (VFSVALID_OK, [0], False, False)"
    by (simp add: p open_defs open_sweep_def)
  with bad show ?thesis
    by (simp add: d)
qed

subsection \<open>The free lists\<close>











lemma upper_bound_le: "upper_bound lt k m \<le> length m"
  unfolding upper_bound_def by (rule length_takeWhile_le)

lemma lower_bound_le: "lower_bound lt k m \<le> length m"
  unfolding lower_bound_def by (rule length_takeWhile_le)






























































end
